theory Spec2Isabelle
  imports Complex_Main "HOL-Library.Sublist"
begin

section \<open>Python values shared by the modules\<close>

text \<open>
  The repository is glue code over PyTorch, NumPy and pandas. The embedding keeps the
  control flow, the data flow and every raise of the repository's own functions; the
  functions of modules that the repository imports but whose source is not among the
  files at hand (\<open>pathutils\<close>, \<open>modelfactory\<close>, \<open>metricutils\<close>, \<open>imageutils\<close>, the
  dataset adapters) and of external libraries are parameters, grouped in one record per
  Python module.
\<close>

type_synonym path = string

datatype pyerror =
    ValueError string
  | TypeError string
  | AttributeError string
  | FileNotFoundError path
  | FileExistsError path
  | UnpicklingError path
  | ZeroDivisionError

text \<open>\<open>src.config.config\<close>: the fields read by the modules below.\<close>

record config =
  model_name :: string
  model_requires_grad :: bool
  num_classes :: nat
  model_weights :: string
  image_size :: nat
  batch_size :: nat

text \<open>\<open>utils.files.pathutils\<close>: the two path resolvers called by the modules below.\<close>

record pathutils =
  get_dataset_path :: "config \<Rightarrow> path"
  get_model_to_load_path :: "config \<Rightarrow> path"

section \<open>datasetutils: the cached label table\<close>

text \<open>
  A pandas DataFrame as far as the module looks at it: the header (\<open>csv.columns\<close>) and
  the data rows.
\<close>

record table =
  columns :: "string list"
  rows :: "string list list"

text \<open>
  A DataFrame object is a table with an identity (Python's \<open>id\<close>): two reads of the
  same file give equal tables and different objects. The module never changes a
  DataFrame after it is built.
\<close>

record dataframe = table +
  obj_id :: nat

text \<open>
  The module's state. \<open>dataset_csv\<close> is the module-global variable: \<open>None\<close> or a
  DataFrame object. \<open>next_id\<close> is the identity the next allocated object gets, and
  \<open>disk_reads\<close> records every call of \<open>pd.read_csv\<close> with its path.
\<close>

record ds_state =
  dataset_csv :: "dataframe option"
  next_id :: nat
  disk_reads :: "path list"

definition initial_ds_state :: ds_state where
  "initial_ds_state = \<lparr>dataset_csv = None, next_id = 0, disk_reads = []\<rparr>"

text \<open>
  \<open>pd.read_csv(p)\<close> on a disk that holds a parsed table at some paths: a missing file is
  FileNotFoundError, a present one becomes a fresh DataFrame object.
\<close>

definition read_csv ::
  "(path \<Rightarrow> table option) \<Rightarrow> path \<Rightarrow> ds_state \<Rightarrow> (pyerror + dataframe) \<times> ds_state" where
  "read_csv disk p st =
     (let st1 = st\<lparr>disk_reads := disk_reads st @ [p]\<rparr>
      in case disk p of
           None \<Rightarrow> (Inl (FileNotFoundError p), st1)
         | Some t \<Rightarrow>
             (Inr \<lparr>columns = columns t, rows = rows t, obj_id = next_id st1\<rparr>,
              st1\<lparr>next_id := Suc (next_id st1)\<rparr>))"

text \<open>
  \<open>__get_dataset_csv(config)\<close> (the leading underscores are dropped, an Isabelle name
  cannot start with one).
\<close>

definition get_dataset_csv ::
  "pathutils \<Rightarrow> (path \<Rightarrow> table option) \<Rightarrow> config \<Rightarrow> ds_state
     \<Rightarrow> (pyerror + dataframe) \<times> ds_state" where
  "get_dataset_csv pu disk cfg st =
     (case dataset_csv st of
        None \<Rightarrow>
          (case read_csv disk (get_dataset_path pu cfg) st of
             (Inl e, st1) \<Rightarrow> (Inl e, st1)
           | (Inr r, st1) \<Rightarrow> (Inr r, st1\<lparr>dataset_csv := Some r\<rparr>))
      | Some r \<Rightarrow> (Inr r, st))"

text \<open>
  \<open>__get_index_to_tag_mapping(csv)\<close>: the dict comprehension over
  \<open>enumerate(csv.columns[1:])\<close> stores the pairs one after the other.
\<close>

definition get_index_to_tag_mapping :: "dataframe \<Rightarrow> (nat \<rightharpoonup> string)" where
  "get_index_to_tag_mapping csv =
     (let tag_columns = drop 1 (columns csv)
      in foldl (\<lambda>index_to_tag (index, tag). index_to_tag(index \<mapsto> tag))
           Map.empty (enumerate 0 tag_columns))"

text \<open>
  Each entry point runs \<open>dataset_csv = __get_dataset_csv(config)\<close> first: the call, then
  the assignment to the global.
\<close>

definition load_dataset_csv ::
  "pathutils \<Rightarrow> (path \<Rightarrow> table option) \<Rightarrow> config \<Rightarrow> ds_state
     \<Rightarrow> (pyerror + dataframe) \<times> ds_state" where
  "load_dataset_csv pu disk cfg st =
     (case get_dataset_csv pu disk cfg st of
        (Inl e, st1) \<Rightarrow> (Inl e, st1)
      | (Inr r, st1) \<Rightarrow> (Inr r, st1\<lparr>dataset_csv := Some r\<rparr>))"

definition get_dataset_tag_mappings ::
  "pathutils \<Rightarrow> (path \<Rightarrow> table option) \<Rightarrow> config \<Rightarrow> ds_state
     \<Rightarrow> (pyerror + (nat \<rightharpoonup> string)) \<times> ds_state" where
  "get_dataset_tag_mappings pu disk cfg st =
     (case load_dataset_csv pu disk cfg st of
        (Inl e, st1) \<Rightarrow> (Inl e, st1)
      | (Inr csv, st1) \<Rightarrow> (Inr (get_index_to_tag_mapping csv), st1))"

text \<open>
  The dataset adapter \<open>ImageDataset(csv, mode=, config=)\<close> and torch's
  \<open>DataLoader(data, batch_size=, shuffle=)\<close> are constructors of other modules.
\<close>

record ('ds, 'dl) loaders =
  ImageDataset :: "dataframe \<Rightarrow> string \<Rightarrow> config \<Rightarrow> 'ds"
  DataLoader :: "'ds \<Rightarrow> nat \<Rightarrow> bool \<Rightarrow> 'dl"

definition get_data_loader_by_name ::
  "('ds, 'dl) loaders \<Rightarrow> pathutils \<Rightarrow> (path \<Rightarrow> table option) \<Rightarrow> string \<Rightarrow> config \<Rightarrow> bool
     \<Rightarrow> ds_state \<Rightarrow> (pyerror + 'dl) \<times> ds_state" where
  "get_data_loader_by_name lib pu disk mode cfg shuffle st =
     (case load_dataset_csv pu disk cfg st of
        (Inl e, st1) \<Rightarrow> (Inl e, st1)
      | (Inr r, st1) \<Rightarrow>
          (let data = ImageDataset lib r mode cfg;
               loader = DataLoader lib data (batch_size cfg) shuffle
           in (Inr loader, st1)))"

definition get_train_valid_test_loaders ::
  "('ds, 'dl) loaders \<Rightarrow> pathutils \<Rightarrow> (path \<Rightarrow> table option) \<Rightarrow> config
     \<Rightarrow> ds_state \<Rightarrow> (pyerror + 'dl \<times> 'dl \<times> 'dl) \<times> ds_state" where
  "get_train_valid_test_loaders lib pu disk cfg st =
     (case load_dataset_csv pu disk cfg st of
        (Inl e, st1) \<Rightarrow> (Inl e, st1)
      | (Inr r, st1) \<Rightarrow>
          (let train_data = ImageDataset lib r ''train'' cfg;
               valid_data = ImageDataset lib r ''valid'' cfg;
               test_data = ImageDataset lib r ''test'' cfg;
               train_loader = DataLoader lib train_data (batch_size cfg) True;
               valid_loader = DataLoader lib valid_data (batch_size cfg) False;
               test_loader = DataLoader lib test_data (batch_size cfg) False
           in (Inr (train_loader, valid_loader, test_loader), st1)))"

section \<open>Tensors, batches and data sources\<close>

text \<open>
  A 2-D float tensor or ndarray is the list of its rows; a label tensor holds integers.
  Floating-point numbers are idealised as reals: no rounding, no overflow, no NaN.
\<close>

type_synonym matrix = "real list list"
type_synonym labels = "int list list"

text \<open>A batch is the dict \<open>{'image': tensor, 'label': tensor}\<close> the collate step builds.\<close>

record 'img batch =
  image :: "'img list"
  label :: labels

text \<open>
  A data source as ModelEvaluator observes a torch DataLoader: \<open>data_loader.dataset\<close>
  (a sequence of samples, of which only the length is read), \<open>data_loader.batch_size\<close>,
  and the batches one iteration yields, in order; \<open>len(data_loader)\<close> is their number.
\<close>

record 'img data_loader =
  dataset :: "('img \<times> int list) list"
  batch_size :: nat
  batches :: "'img batch list"

text \<open>
  \<open>np.vstack\<close>: no arrays at all is an error, and so are rows of different widths.
  (A list of rows cannot tell the width of an array without rows; a DataLoader yields no
  empty batch.)
\<close>

definition vstack :: "'a list list list \<Rightarrow> pyerror + 'a list list" where
  "vstack arrays =
     (if arrays = [] then Inl (ValueError ''need at least one array to concatenate'')
      else let stacked = concat arrays
           in if list_all (\<lambda>r. length r = length (hd stacked)) stacked then Inr stacked
              else Inl (ValueError ''all the input array dimensions except for the concatenation axis must match exactly''))"

section \<open>torch.nn: modules and the loss\<close>

datatype device = CPU | CUDA

text \<open>
  The operations on an \<open>nn.Module\<close> the repository uses. \<open>'m\<close> is the module with its
  parameters, mode and device, \<open>'p\<close> a state dict.
\<close>

record ('m, 'p, 'img) torch =
  cuda_is_available :: bool
  to_device :: "'m \<Rightarrow> device \<Rightarrow> 'm"
  eval_mode :: "'m \<Rightarrow> 'm"
  forward :: "'m \<Rightarrow> 'img list \<Rightarrow> matrix"
  load_state_dict :: "'m \<Rightarrow> 'p \<Rightarrow> 'm"

definition sigmoid :: "real \<Rightarrow> real" where
  "sigmoid x = 1 / (1 + exp (- x))"

text \<open>
  \<open>nn.BCEWithLogitsLoss(reduction=...)\<close> as torch documents it: the loss of one logit
  \<open>x\<close> against one target \<open>y\<close> is \<open>- (y * log (sigmoid x) + (1 - y) * log (1 - sigmoid x))\<close>;
  the reduction is the mean over all elements (the default) or their sum; input and
  target of different shapes are refused. (The mean of no elements is NaN in torch and
  0 here; no batch is empty.)
\<close>

datatype reduction = Mean | Sum

definition bce_with_logits :: "real \<Rightarrow> real \<Rightarrow> real" where
  "bce_with_logits x y = - (y * ln (sigmoid x) + (1 - y) * ln (1 - sigmoid x))"

definition BCEWithLogitsLoss :: "reduction \<Rightarrow> matrix \<Rightarrow> matrix \<Rightarrow> pyerror + real" where
  "BCEWithLogitsLoss red input target =
     (if map length input \<noteq> map length target
      then Inl (ValueError ''Target size must be the same as input size'')
      else let losses = concat (map2 (map2 bce_with_logits) input target)
           in case red of
                Sum \<Rightarrow> Inr (sum_list losses)
              | Mean \<Rightarrow> Inr (sum_list losses / real (length losses)))"

section \<open>tensorboardwriter\<close>

text \<open>
  \<open>utils.files.imageutils\<close>: the functions TensorBoardWriter calls. PIL images and image
  tensors share the type \<open>'img\<close>.
\<close>

record 'img imageutils =
  denormalize_images :: "'img list \<Rightarrow> config \<Rightarrow> 'img list"
  convert_to_PIL :: "'img list \<Rightarrow> 'img list"
  overlay_predictions_batch :: "'img list \<Rightarrow> labels \<Rightarrow> (nat \<rightharpoonup> string) \<Rightarrow> labels \<Rightarrow> 'img list"
  convert_PIL_to_tensors :: "'img list \<Rightarrow> 'img list"
  convert_labels_to_color :: "labels \<Rightarrow> nat \<Rightarrow> 'img list"

text \<open>
  A TensorBoardWriter object: its config and its SummaryWriter, \<open>None\<close> once closed. The
  SummaryWriter is the list of the image events written through it (tag, images, step).
\<close>

record 'img tensorboard_writer =
  tb_config :: config
  writer :: "(string \<times> 'img list \<times> nat) list option"

definition add_images ::
  "'img tensorboard_writer \<Rightarrow> string \<Rightarrow> 'img list \<Rightarrow> nat
     \<Rightarrow> pyerror + 'img tensorboard_writer" where
  "add_images self tag images step =
     (case writer self of
        None \<Rightarrow> Inl (AttributeError ''NoneType object has no attribute add_images'')
      | Some events \<Rightarrow> Inr (self\<lparr>writer := Some (events @ [(tag, images, step)])\<rparr>))"

definition close_writer :: "'img tensorboard_writer \<Rightarrow> 'img tensorboard_writer" where
  "close_writer self = (case writer self of None \<Rightarrow> self | Some events \<Rightarrow> self\<lparr>writer := None\<rparr>)"

text \<open>
  \<open>write_image_test_results\<close>. The state is the writer itself and the state of
  datasetutils, which \<open>get_dataset_tag_mappings\<close> reads and may fill.
\<close>

definition write_image_test_results ::
  "'img imageutils \<Rightarrow> pathutils \<Rightarrow> (path \<Rightarrow> table option) \<Rightarrow> 'img tensorboard_writer
     \<Rightarrow> 'img list \<Rightarrow> labels \<Rightarrow> labels \<Rightarrow> nat \<Rightarrow> string \<Rightarrow> string \<Rightarrow> ds_state
     \<Rightarrow> (pyerror + unit) \<times> 'img tensorboard_writer \<times> ds_state" where
  "write_image_test_results iu pu disk self images true_labels predictions step runmode dataSubset st =
     (let denormalized_images = denormalize_images iu images (tb_config self);
          pil_images = convert_to_PIL iu denormalized_images
      in case get_dataset_tag_mappings pu disk (tb_config self) st of
           (Inl e, st1) \<Rightarrow> (Inl e, self, st1)
         | (Inr mapping, st1) \<Rightarrow>
             (let overlaid_images = overlay_predictions_batch iu pil_images predictions mapping true_labels;
                  tensor_overlaid_images = convert_PIL_to_tensors iu overlaid_images
              in case add_images self (runmode @ ''/'' @ dataSubset @ ''/Images'') denormalized_images step of
                   Inl e \<Rightarrow> (Inl e, self, st1)
                 | Inr self1 \<Rightarrow>
               (case add_images self1 (runmode @ ''/'' @ dataSubset @ ''/True Labels'')
                       (convert_labels_to_color iu true_labels (config.num_classes (tb_config self1))) step of
                   Inl e \<Rightarrow> (Inl e, self1, st1)
                 | Inr self2 \<Rightarrow>
               (case add_images self2 (runmode @ ''/'' @ dataSubset @ ''/Predictions'')
                       (convert_labels_to_color iu predictions (config.num_classes (tb_config self2))) step of
                   Inl e \<Rightarrow> (Inl e, self2, st1)
                 | Inr self3 \<Rightarrow>
               (case add_images self3 (runmode @ ''/'' @ dataSubset @ ''/OverlayPredictions'')
                       tensor_overlaid_images step of
                   Inl e \<Rightarrow> (Inl e, self3, st1)
                 | Inr self4 \<Rightarrow> (Inr (), self4, st1))))))"

section \<open>modelevaluator\<close>

text \<open>
  \<open>utils.metrics.metricutils\<close>: binarisation and the metrics. A metric is one number, or
  one number per class when \<open>average\<close> is \<open>None\<close>.
\<close>

datatype metric = Scalar real | PerClass "real list"

record metricutils =
  getpredictions_with_threshold :: "matrix \<Rightarrow> real option \<Rightarrow> labels"
  compute_metrics :: "labels \<Rightarrow> labels \<Rightarrow> real option \<Rightarrow> string option \<Rightarrow> metric \<times> metric \<times> metric"

text \<open>
  Python's \<open>random\<close> module: a stream of raw draws and the position in it.
  \<open>random.randint(a, b)\<close> raises on an empty range and otherwise returns a number
  between \<open>a\<close> and \<open>b\<close>, both included.
\<close>

record py_random =
  draws :: "nat \<Rightarrow> nat"
  pos :: nat

definition randint :: "int \<Rightarrow> int \<Rightarrow> py_random \<Rightarrow> (pyerror + int) \<times> py_random" where
  "randint a b rs =
     (if b < a then (Inl (ValueError ''empty range for randrange()''), rs)
      else (Inr (a + int (draws rs (pos rs) mod nat (b - a + 1))), rs\<lparr>pos := Suc (pos rs)\<rparr>))"

text \<open>The slice \<open>xs[start:stop]\<close> for indices that are not negative.\<close>

definition slice :: "'a list \<Rightarrow> nat \<Rightarrow> nat \<Rightarrow> 'a list" where
  "slice xs start stop = take (stop - start) (drop start xs)"

text \<open>The state outside the evaluator: the globals of datasetutils and of \<open>random\<close>.\<close>

record world =
  ds :: ds_state
  rng :: py_random

record ('m, 'img) ModelEvaluator =
  model :: 'm
  config :: config
  criterion :: "matrix \<Rightarrow> matrix \<Rightarrow> pyerror + real"
  device :: device
  num_classes :: nat
  tensorBoardWriter :: "'img tensorboard_writer option"
  epochs :: "nat option"

text \<open>\<open>ModelEvaluator.__init__\<close>.\<close>

definition init ::
  "'m \<Rightarrow> (matrix \<Rightarrow> matrix \<Rightarrow> pyerror + real) \<Rightarrow> device \<Rightarrow> 'img tensorboard_writer option
     \<Rightarrow> config \<Rightarrow> nat option \<Rightarrow> ('m, 'img) ModelEvaluator" where
  "init model0 criterion0 device0 tensorBoardWriter0 config0 epochs0 =
     \<lparr>model = model0, config = config0, criterion = criterion0, device = device0,
      num_classes = config.num_classes config0, tensorBoardWriter = tensorBoardWriter0,
      epochs = epochs0\<rparr>"

text \<open>
  \<open>predict\<close>: the loop over the batches, with the two lists and the running loss as
  accumulator. \<open>labels.float()\<close> converts the integer labels; moving tensors between
  devices and \<open>torch.no_grad()\<close> do not change a value.
\<close>

fun predict_loop ::
  "('img list \<Rightarrow> matrix) \<Rightarrow> (matrix \<Rightarrow> matrix \<Rightarrow> pyerror + real) \<Rightarrow> 'img batch list
     \<Rightarrow> matrix list \<times> labels list \<times> real \<Rightarrow> pyerror + matrix list \<times> labels list \<times> real" where
  "predict_loop net crit [] acc = Inr acc"
| "predict_loop net crit (b # bs) (prediction_labels, true_labels, total_loss) =
     (let images = image b;
          labels = label b;
          outputs = net images
      in case crit outputs (map (map real_of_int) labels) of
           Inl e \<Rightarrow> Inl e
         | Inr loss \<Rightarrow>
             predict_loop net crit bs
               (prediction_labels @ [outputs], true_labels @ [labels], total_loss + loss))"

text \<open>
  \<open>self.model.eval()\<close> switches the module to evaluation mode before the loop; the
  module stays in that mode afterwards, which no function here reads again.
\<close>

definition predict ::
  "('m, 'p, 'img) torch \<Rightarrow> ('m, 'img) ModelEvaluator \<Rightarrow> 'img data_loader
     \<Rightarrow> pyerror + matrix \<times> labels \<times> real" where
  "predict nn self data_loader =
     (case predict_loop (forward nn (eval_mode nn (model self))) (criterion self)
             (batches data_loader) ([], [], 0) of
        Inl e \<Rightarrow> Inl e
      | Inr (prediction_list, true_list, total_loss) \<Rightarrow>
          (case vstack prediction_list of
             Inl e \<Rightarrow> Inl e
           | Inr prediction_labels \<Rightarrow>
               (case vstack true_list of
                  Inl e \<Rightarrow> Inl e
                | Inr true_labels \<Rightarrow>
                    if length (dataset data_loader) = 0 then Inl ZeroDivisionError
                    else Inr (prediction_labels, true_labels,
                              total_loss / real (length (dataset data_loader))))))"

text \<open>
  \<open>evaluate_predictions\<close>. The logging branch draws a batch index, takes that batch from
  a new iteration of the data source, slices the binarised predictions and hands all of
  it to the writer, which is part of \<open>self\<close>.
\<close>

definition evaluate_predictions ::
  "metricutils \<Rightarrow> 'img imageutils \<Rightarrow> pathutils \<Rightarrow> (path \<Rightarrow> table option)
     \<Rightarrow> ('m, 'img) ModelEvaluator \<Rightarrow> 'img data_loader \<Rightarrow> matrix \<Rightarrow> labels \<Rightarrow> nat \<Rightarrow> string
     \<Rightarrow> string option \<Rightarrow> string option \<Rightarrow> real option \<Rightarrow> world
     \<Rightarrow> (pyerror + metric \<times> metric \<times> metric) \<times> ('m, 'img) ModelEvaluator \<times> world" where
  "evaluate_predictions mu iu pu disk self data_loader prediction_outputs true_labels epoch
      datasetSubset average metricMode threshold w =
     (let predictions_binary = getpredictions_with_threshold mu prediction_outputs threshold;
          (precision, recall, f1) = compute_metrics mu true_labels predictions_binary threshold average
      in case (metricMode, tensorBoardWriter self) of
           (Some mode, Some tbw) \<Rightarrow>
             (case randint 0 (int (length (batches data_loader)) - 1) (rng w) of
                (Inl e, rng1) \<Rightarrow> (Inl e, self, w\<lparr>rng := rng1\<rparr>)
              | (Inr random_batch_index, rng1) \<Rightarrow>
                  (let batch_dict = batches data_loader ! nat random_batch_index;
                       images = image batch_dict;
                       labels = label batch_dict;
                       start_index = nat random_batch_index * batch_size data_loader;
                       end_index = min ((nat random_batch_index + 1) * batch_size data_loader)
                                       (length predictions_binary);
                       selected_predictions = slice predictions_binary start_index end_index
                   in case write_image_test_results iu pu disk tbw images labels
                             selected_predictions epoch mode datasetSubset (ds w) of
                        (Inl e, tbw1, ds1) \<Rightarrow>
                          (Inl e, self\<lparr>tensorBoardWriter := Some tbw1\<rparr>, \<lparr>ds = ds1, rng = rng1\<rparr>)
                      | (Inr u, tbw1, ds1) \<Rightarrow>
                          (Inr (f1, precision, recall), self\<lparr>tensorBoardWriter := Some tbw1\<rparr>,
                           \<lparr>ds = ds1, rng = rng1\<rparr>)))
         | _ \<Rightarrow> (Inr (f1, precision, recall), self, w))"

text \<open>\<open>evaluate\<close>.\<close>

definition evaluate ::
  "('m, 'p, 'img) torch \<Rightarrow> metricutils \<Rightarrow> 'img imageutils \<Rightarrow> pathutils \<Rightarrow> (path \<Rightarrow> table option)
     \<Rightarrow> ('m, 'img) ModelEvaluator \<Rightarrow> 'img data_loader \<Rightarrow> nat \<Rightarrow> string
     \<Rightarrow> string option \<Rightarrow> string option \<Rightarrow> real option \<Rightarrow> world
     \<Rightarrow> (pyerror + real \<times> metric \<times> metric \<times> metric) \<times> ('m, 'img) ModelEvaluator \<times> world" where
  "evaluate nn mu iu pu disk self data_loader epoch datasetSubset metricMode average threshold w =
     (case predict nn self data_loader of
        Inl e \<Rightarrow> (Inl e, self, w)
      | Inr (all_outputs, all_labels, avg_loss) \<Rightarrow>
          (case evaluate_predictions mu iu pu disk self data_loader all_outputs all_labels epoch
                  datasetSubset average metricMode threshold w of
             (Inl e, self1, w1) \<Rightarrow> (Inl e, self1, w1)
           | (Inr (f1, precision, recall), self1, w1) \<Rightarrow>
               (Inr (avg_loss, f1, precision, recall), self1, w1)))"

section \<open>ModelEvaluator.from_file\<close>

text \<open>
  The files the evaluator and the driver see: a directory with the names \<open>os.listdir\<close>
  returns, a checkpoint that decodes to a state dict and an epoch count, or any other file.
\<close>

datatype 'p node = Dir "string list" | Checkpoint 'p nat | OtherFile

type_synonym 'p filesystem = "path \<Rightarrow> 'p node option"

definition path_exists :: "'p filesystem \<Rightarrow> path \<Rightarrow> bool" where
  "path_exists fs p = (fs p \<noteq> None)"

text \<open>\<open>utils.models.modelfactory\<close>.\<close>

record 'm modelfactory =
  create_model :: "string \<Rightarrow> bool \<Rightarrow> nat \<Rightarrow> string \<Rightarrow> 'm"

text \<open>
  Modelled from the spec: \<open>modelloadingutils.load_model(path, model)\<close>, whose source is
  not among the files at hand. The checkpoint decodes to the parameter state and the
  epoch count; the parameters are loaded into the given model and the epoch count is the
  second component of the result. A file that does not decode is an error.
\<close>

definition load_model ::
  "('m, 'p, 'img) torch \<Rightarrow> 'p filesystem \<Rightarrow> path \<Rightarrow> 'm \<Rightarrow> pyerror + 'm \<times> nat" where
  "load_model nn fs p m =
     (case fs p of
        Some (Checkpoint state epoch) \<Rightarrow> Inr (load_state_dict nn m state, epoch)
      | _ \<Rightarrow> Inl (UnpicklingError p))"

datatype log_level = INFO | ERROR

text \<open>
  \<open>from_file(cls, device, tensorBoardWriter=None, thisconfig=config)\<close>. \<open>gconfig\<close> is the
  module-global \<open>config\<close>; the first statement assigns it to the parameter. The second
  component of the result holds the lines written to the logger.
\<close>

definition from_file ::
  "('m, 'p, 'img) torch \<Rightarrow> 'm modelfactory \<Rightarrow> pathutils \<Rightarrow> 'p filesystem \<Rightarrow> config
     \<Rightarrow> device \<Rightarrow> 'img tensorboard_writer option \<Rightarrow> config
     \<Rightarrow> (pyerror + ('m, 'img) ModelEvaluator) \<times> (log_level \<times> string) list" where
  "from_file nn mf pu fs gconfig device0 tensorBoardWriter0 thisconfig =
     (let thisconfig = gconfig;
          model0 = to_device nn
                     (create_model mf (model_name thisconfig) (model_requires_grad thisconfig)
                        (config.num_classes thisconfig) (model_weights thisconfig))
                     device0;
          criterion0 = BCEWithLogitsLoss Mean;
          modelToLoadPath = get_model_to_load_path pu thisconfig
      in if path_exists fs modelToLoadPath
         then (case load_model nn fs modelToLoadPath model0 of
                 Inl e \<Rightarrow> (Inl e, [(INFO, ''Loading the best model...'')])
               | Inr (model1, epochs0) \<Rightarrow>
                   (Inr (init model1 criterion0 device0 tensorBoardWriter0 thisconfig (Some epochs0)),
                    [(INFO, ''Loading the best model...'')]))
         else (Inl (ValueError (''Could not find a model at path: '' @ modelToLoadPath
                       @ ''. Check to ensure the config/json value for model_name_to_load is correct!'')),
               [(ERROR, ''Could not find a model at path: '' @ modelToLoadPath)]))"

section \<open>metricutils as the specification describes it\<close>

text \<open>
  Modelled from the spec: \<open>metricutils.getpredictions_with_threshold\<close>, whose source is
  not among the files at hand. It applies the sigmoid to every raw score and compares
  the result with the one scalar threshold. The specification does not say whether a
  score exactly at the threshold counts as positive, so the comparison is a parameter:
  \<open>inclusive\<close> chooses \<open>\<ge>\<close>, otherwise \<open>>\<close>.
\<close>

definition binarize :: "bool \<Rightarrow> real \<Rightarrow> real \<Rightarrow> int" where
  "binarize inclusive threshold score =
     (if (if inclusive then sigmoid score \<ge> threshold else sigmoid score > threshold)
      then 1 else 0)"

definition getpredictions_with_threshold_spec :: "bool \<Rightarrow> matrix \<Rightarrow> real \<Rightarrow> labels" where
  "getpredictions_with_threshold_spec inclusive outputs threshold =
     map (map (binarize inclusive threshold)) outputs"

section \<open>inference: the driver\<close>

text \<open>The parsed command line.\<close>

record args =
  input_path :: string
  output_folder :: "string option"
  time_interval :: real

text \<open>
  \<open>pathlib.Path\<close> on a POSIX system. A path object is its anchor (empty, one slash or
  two slashes) and its segments; the constructor drops empty segments and the segment \<open>.\<close>, keeps
  \<open>..\<close>, and keeps two leading slashes apart from one and from three or more. \<open>str\<close>
  writes the path back, \<open>.\<close> for the path without anchor and segments.
\<close>

record pure_path =
  anchor :: string
  segments :: "string list"

primrec split_slash :: "string \<Rightarrow> string list" where
  "split_slash [] = [[]]"
| "split_slash (c # cs) =
     (if c = CHR ''/'' then [] # split_slash cs
      else (case split_slash cs of [] \<Rightarrow> [[c]] | x # xs \<Rightarrow> (c # x) # xs))"

definition Path :: "string \<Rightarrow> pure_path" where
  "Path s =
     \<lparr>anchor = (if take 2 s = ''//'' \<and> take 3 s \<noteq> ''///'' then ''//''
                else if take 1 s = ''/'' then ''/'' else []),
      segments = filter (\<lambda>name. name \<noteq> [] \<and> name \<noteq> ''.'') (split_slash s)\<rparr>"

fun join_slash :: "string list \<Rightarrow> string" where
  "join_slash [] = []"
| "join_slash [name] = name"
| "join_slash (name # rest) = name @ ''/'' @ join_slash rest"

definition str :: "pure_path \<Rightarrow> string" where
  "str p = (if anchor p = [] \<and> segments p = [] then ''.'' else anchor p @ join_slash (segments p))"

definition parent :: "pure_path \<Rightarrow> pure_path" where
  "parent p = \<lparr>anchor = anchor p, segments = butlast (segments p)\<rparr>"

definition joinpath :: "pure_path \<Rightarrow> string \<Rightarrow> pure_path" where
  "joinpath p s =
     (let q = Path s
      in if anchor q \<noteq> [] then q else \<lparr>anchor = anchor p, segments = segments p @ segments q\<rparr>)"

text \<open>
  What the driver calls in the dataset modules: the two prediction datasets and the
  preprocessing of one image.
\<close>

record ('ds, 'img) inference_lib =
  ImageDatasetPredict :: "path list \<Rightarrow> config \<Rightarrow> 'ds"
  VideoDatasetPredict :: "path \<Rightarrow> real \<Rightarrow> config \<Rightarrow> 'ds"
  preprocess_single_image :: "path \<Rightarrow> config \<Rightarrow> 'img"

text \<open>\<open>os.path.join\<close> of two components (POSIX).\<close>

definition os_path_join :: "path \<Rightarrow> path \<Rightarrow> path" where
  "os_path_join a b =
     (if b \<noteq> [] \<and> hd b = CHR ''/'' then b
      else if a = [] \<or> last a = CHR ''/'' then a @ b
      else a @ ''/'' @ b)"

text \<open>\<open>str.lower\<close> on the ASCII letters, and \<open>str.endswith\<close> with a tuple of suffixes.\<close>

definition lower_char :: "char \<Rightarrow> char" where
  "lower_char c =
     (case map_of (zip ''ABCDEFGHIJKLMNOPQRSTUVWXYZ'' ''abcdefghijklmnopqrstuvwxyz'') c of
        Some l \<Rightarrow> l
      | None \<Rightarrow> c)"

definition lower :: "string \<Rightarrow> string" where
  "lower s = map lower_char s"

definition endswith :: "string \<Rightarrow> string list \<Rightarrow> bool" where
  "endswith s endings = list_ex (\<lambda>x. suffix x s) endings"

definition is_dir :: "'p filesystem \<Rightarrow> path \<Rightarrow> bool" where
  "is_dir fs p = (case fs p of Some (Dir names) \<Rightarrow> True | _ \<Rightarrow> False)"

definition is_file :: "'p filesystem \<Rightarrow> path \<Rightarrow> bool" where
  "is_file fs p = (case fs p of None \<Rightarrow> False | Some (Dir names) \<Rightarrow> False | Some f \<Rightarrow> True)"

definition listdir :: "'p filesystem \<Rightarrow> path \<Rightarrow> string list" where
  "listdir fs p = (case fs p of Some (Dir names) \<Rightarrow> names | _ \<Rightarrow> [])"

text \<open>
  A filesystem value says what the operating system finds at each path string at one
  moment; two strings that name the same file have the same entry. The call
  \<open>os.makedirs(p, exist_ok=True)\<close> is the one call of the driver that changes it. Which
  strings name the new directories is the operating system's business (current
  directory, \<open>..\<close>, links), so the call is a parameter: it fails or gives the filesystem
  after it.
\<close>

record 'p os_module =
  makedirs :: "'p filesystem \<Rightarrow> path \<Rightarrow> pyerror + 'p filesystem"

text \<open>
  A call \<open>modelEvaluator.predict(...)\<close> with its positional arguments: Python binds them
  to the one parameter \<open>data_loader\<close> of \<open>predict\<close> and raises TypeError when their number
  is not one.
\<close>

datatype 'img pyarg = Loader "'img data_loader" | Bool bool | Float real

definition call_predict ::
  "('m, 'p, 'img) torch \<Rightarrow> ('m, 'img) ModelEvaluator \<Rightarrow> 'img pyarg list
     \<Rightarrow> pyerror + matrix \<times> labels \<times> real" where
  "call_predict nn self arguments =
     (case arguments of
        [Loader data_loader] \<Rightarrow> predict nn self data_loader
      | [a] \<Rightarrow> Inl (TypeError ''object has no len()'')
      | _ \<Rightarrow> Inl (TypeError ''predict() takes 2 positional arguments''))"

text \<open>
  The state of the driver: the files, what was printed and what was logged. No branch
  of \<open>main\<close> reaches one of its \<open>save\<close> calls: \<open>predict\<close> is called with three arguments,
  its result (a tuple) would be indexed with a string, and ModelEvaluator has no method
  \<open>single_image_prediction\<close>.
\<close>

record 'p io =
  files :: "'p filesystem"
  stdout :: "string list"
  logged :: "(log_level \<times> string) list"

text \<open>
  \<open>args.output_folder or input_path.parent.joinpath('inference_outputs')\<close>: the string from
  the command line unless it is missing or empty, else the path object, which
  \<open>os.makedirs\<close> reads as its string.
\<close>

definition resolve_output_folder :: "args \<Rightarrow> path" where
  "resolve_output_folder args =
     (case output_folder args of
        None \<Rightarrow> str (joinpath (parent (Path (input_path args))) ''inference_outputs'')
      | Some folder \<Rightarrow>
          if folder = [] then str (joinpath (parent (Path (input_path args))) ''inference_outputs'')
          else folder)"

text \<open>The list comprehension over \<open>os.listdir(input_path)\<close> in the directory branch.\<close>

definition list_image_paths :: "'p filesystem \<Rightarrow> path \<Rightarrow> path list" where
  "list_image_paths fs dir =
     map (os_path_join dir)
       (filter (\<lambda>img. endswith (lower img) [''.png'', ''.jpg'', ''.jpeg'']) (listdir fs dir))"

text \<open>
  \<open>main\<close>. \<open>input_path0\<close> is the string of \<open>Path(args.input_path)\<close>: the tests, the
  listing, the extension checks and the messages all go through the path object.
\<close>

definition main ::
  "('m, 'p, 'img) torch \<Rightarrow> 'm modelfactory \<Rightarrow> pathutils \<Rightarrow> 'p os_module
     \<Rightarrow> ('ds, 'img) inference_lib \<Rightarrow> ('ds, 'img data_loader) loaders \<Rightarrow> config \<Rightarrow> args
     \<Rightarrow> 'p io \<Rightarrow> (pyerror + unit) \<times> 'p io" where
  "main nn mf pu os lib tlib gconfig args w =
     (let device0 = (if cuda_is_available nn then CUDA else CPU);
          input_path0 = str (Path (input_path args));
          output_folder0 = resolve_output_folder args
      in case makedirs os (files w) output_folder0 of
           Inl e \<Rightarrow> (Inl e, w)
         | Inr fs1 \<Rightarrow>
       (case from_file nn mf pu fs1 gconfig device0 None gconfig of
           (Inl e, lines) \<Rightarrow> (Inl e, w\<lparr>files := fs1, logged := logged w @ lines\<rparr>)
         | (Inr modelEvaluator, lines) \<Rightarrow>
       (let w1 = w\<lparr>files := fs1, logged := logged w @ lines\<rparr>
        in if is_dir fs1 input_path0 then
             (let image_paths = list_image_paths fs1 input_path0;
                  image_dataset = ImageDatasetPredict lib image_paths gconfig;
                  dataset_loader = DataLoader tlib image_dataset (config.batch_size gconfig) False
              in case call_predict nn modelEvaluator [Loader dataset_loader, Bool False, Float 0.5] of
                   Inl e \<Rightarrow> (Inl e, w1)
                 | Inr predictionResults \<Rightarrow>
                     (Inl (TypeError ''tuple indices must be integers or slices, not str''), w1))
           else if is_file fs1 input_path0 then
             (if endswith (lower input_path0) [''.png'', ''.jpg'', ''.jpeg''] then
                (let preprocessed_img = preprocess_single_image lib input_path0 gconfig
                 in (Inl (AttributeError ''ModelEvaluator object has no attribute single_image_prediction''), w1))
              else if endswith (lower input_path0) [''.mp4'', ''.avi'', ''.mov''] then
                (let video_dataset = VideoDatasetPredict lib input_path0 (time_interval args) gconfig;
                     dataset_loader = DataLoader tlib video_dataset (config.batch_size gconfig) False
                 in case call_predict nn modelEvaluator [Loader dataset_loader, Bool False, Float 0.5] of
                      Inl e \<Rightarrow> (Inl e, w1)
                    | Inr predictionResults \<Rightarrow>
                        (Inl (TypeError ''tuple indices must be integers or slices, not str''), w1))
              else (Inr (), w1\<lparr>stdout := stdout w1 @ [''Unsupported file type for input: '' @ input_path0]\<rparr>))
           else (Inr (), w1\<lparr>stdout := stdout w1 @ [''Invalid input path: '' @ input_path0]\<rparr>))))"

section \<open>A small installation, for concrete runs\<close>

text \<open>
  One configuration, a model whose parameters are one number \<open>m\<close> and which scores an
  image \<open>x\<close> as \<open>[m + x, m - x]\<close>, a checkpoint with parameter 0 written after 7 epochs,
  a label file with the columns path, cat and dog, and two data sources.
\<close>

definition example_config :: config where
  "example_config =
     \<lparr>model_name = ''resnet'', model_requires_grad = False, num_classes = 2,
      model_weights = ''DEFAULT'', image_size = 224, batch_size = 2\<rparr>"

definition other_config :: config where
  "other_config =
     \<lparr>model_name = ''vit'', model_requires_grad = True, num_classes = 5,
      model_weights = ''NONE'', image_size = 384, batch_size = 8\<rparr>"

definition example_pathutils :: pathutils where
  "example_pathutils =
     \<lparr>get_dataset_path = (\<lambda>c. model_name c @ ''.csv''),
      get_model_to_load_path = (\<lambda>c. model_name c @ ''.pth'')\<rparr>"

definition example_torch :: "(real, real, nat) torch" where
  "example_torch =
     \<lparr>cuda_is_available = False, to_device = (\<lambda>m d. m), eval_mode = (\<lambda>m. m),
      forward = (\<lambda>m images. map (\<lambda>x. [m + real x, m - real x]) images),
      load_state_dict = (\<lambda>m p. p)\<rparr>"

definition example_modelfactory :: "real modelfactory" where
  "example_modelfactory = \<lparr>create_model = (\<lambda>name grad n weights. 1)\<rparr>"

definition example_table :: table where
  "example_table = \<lparr>columns = [''path'', ''cat'', ''dog''], rows = [[''a.jpg'', ''0'', ''1'']]\<rparr>"

definition example_disk :: "path \<Rightarrow> table option" where
  "example_disk = [''resnet.csv'' \<mapsto> example_table]"

definition example_loaders :: "(dataframe \<times> string, (dataframe \<times> string) \<times> nat \<times> bool) loaders" where
  "example_loaders =
     \<lparr>ImageDataset = (\<lambda>csv mode c. (csv, mode)), DataLoader = (\<lambda>data n shuffle. (data, n, shuffle))\<rparr>"

text \<open>
  The files of the examples, by their paths from the current directory \<open>.\<close>, whose
  listing comes first.
\<close>

definition example_files :: "real filesystem" where
  "example_files =
     [''.'' \<mapsto> Dir [''resnet.pth'', ''imgs'', ''notes.txt''],
      ''resnet.pth'' \<mapsto> Checkpoint 0 7,
      ''imgs'' \<mapsto> Dir [''a.jpg'', ''b.txt''],
      ''imgs/a.jpg'' \<mapsto> OtherFile,
      ''imgs/b.txt'' \<mapsto> OtherFile,
      ''notes.txt'' \<mapsto> OtherFile]"

text \<open>The files after the driver has created the output folder in the current directory.\<close>

definition example_files_after :: "real filesystem" where
  "example_files_after =
     example_files
       (''inference_outputs'' \<mapsto> Dir [],
        ''.'' \<mapsto> Dir [''resnet.pth'', ''imgs'', ''notes.txt'', ''inference_outputs''])"

definition example_loader :: "nat data_loader" where
  "example_loader =
     \<lparr>dataset = [(0, [0, 0]), (0, [0, 0])], batch_size = 2,
      batches = [\<lparr>image = [0, 0], label = [[0, 0], [0, 0]]\<rparr>]\<rparr>"

definition example_loader3 :: "nat data_loader" where
  "example_loader3 =
     \<lparr>dataset = [(1, [1, 0]), (2, [0, 1]), (3, [1, 1])], batch_size = 2,
      batches = [\<lparr>image = [1, 2], label = [[1, 0], [0, 1]]\<rparr>, \<lparr>image = [3], label = [[1, 1]]\<rparr>]\<rparr>"

text \<open>The three-sample data source when the last, incomplete batch is dropped.\<close>

definition drop_last_loader :: "nat data_loader" where
  "drop_last_loader =
     \<lparr>dataset = [(1, [1, 0]), (2, [0, 1]), (3, [1, 1])], batch_size = 2,
      batches = [\<lparr>image = [1, 2], label = [[1, 0], [0, 1]]\<rparr>]\<rparr>"

definition example_inference_lib :: "(path list + path, nat) inference_lib" where
  "example_inference_lib =
     \<lparr>ImageDatasetPredict = (\<lambda>paths c. Inl paths),
      VideoDatasetPredict = (\<lambda>p t c. Inr p),
      preprocess_single_image = (\<lambda>p c. 0)\<rparr>"

definition example_torch_data :: "(path list + path, nat data_loader) loaders" where
  "example_torch_data =
     \<lparr>ImageDataset = (\<lambda>csv mode c. Inl []),
      DataLoader = (\<lambda>data n shuffle. \<lparr>dataset = [], batch_size = n, batches = []\<rparr>)\<rparr>"

definition example_io :: "real io" where
  "example_io = \<lparr>files = example_files, stdout = [], logged = []\<rparr>"

text \<open>
  Metrics pooled over all classes, identity image utilities, an open writer, an
  evaluator with that writer, and the state before the first evaluation. The last three
  definitions name what one evaluation of the three-sample data source produces.
\<close>

definition example_metricutils :: metricutils where
  "example_metricutils =
     \<lparr>getpredictions_with_threshold =
        (\<lambda>outputs threshold.
           getpredictions_with_threshold_spec False outputs
             (case threshold of None \<Rightarrow> 1 / 2 | Some t \<Rightarrow> t)),
      compute_metrics =
        (\<lambda>true_labels predictions threshold average.
           let tp = real_of_int (sum_list (map2 (*) (concat true_labels) (concat predictions)));
               pp = real_of_int (sum_list (concat predictions));
               ap = real_of_int (sum_list (concat true_labels))
           in (Scalar (tp / pp), Scalar (tp / ap), Scalar (2 * tp / (pp + ap))))\<rparr>"

definition example_imageutils :: "nat imageutils" where
  "example_imageutils =
     \<lparr>denormalize_images = (\<lambda>images c. images),
      convert_to_PIL = (\<lambda>images. images),
      overlay_predictions_batch = (\<lambda>images predictions mapping true_labels. images),
      convert_PIL_to_tensors = (\<lambda>images. images),
      convert_labels_to_color = (\<lambda>labels n. map (\<lambda>row. nat (sum_list row)) labels)\<rparr>"

definition example_writer :: "nat tensorboard_writer" where
  "example_writer = \<lparr>tb_config = example_config, writer = Some []\<rparr>"

definition example_world :: world where
  "example_world = \<lparr>ds = initial_ds_state, rng = \<lparr>draws = (\<lambda>k. 5), pos = 0\<rparr>\<rparr>"

definition example_evaluator :: "(real, nat) ModelEvaluator" where
  "example_evaluator =
     init 0 (BCEWithLogitsLoss Mean) CPU (Some example_writer) example_config (Some 7)"

definition example_avg_loss :: real where
  "example_avg_loss =
     ((bce_with_logits 1 1 + (bce_with_logits (- 1) 0
         + (bce_with_logits 2 0 + bce_with_logits (- 2) 1))) / 4
      + (bce_with_logits 3 1 + bce_with_logits (- 3) 1) / 2) / 3"

definition example_events :: "(string \<times> nat list \<times> nat) list" where
  "example_events =
     [(''Test/valid/Images'', [3], 4), (''Test/valid/True Labels'', [2], 4),
      (''Test/valid/Predictions'', [1], 4), (''Test/valid/OverlayPredictions'', [3], 4)]"

definition empty_loader :: "nat data_loader" where
  "empty_loader = \<lparr>dataset = [], batch_size = 2, batches = []\<rparr>"

text \<open>
  An operating system for the examples: every path is read as \<open>pathlib\<close> reads it, with
  \<open>..\<close> an ordinary name and no links. \<open>makedirs\<close> goes down the path, creates each
  directory that is missing and enters its name in the listing of the directory above
  (when that one is known), and stops at a file in its way.
\<close>

definition path_prefixes :: "pure_path \<Rightarrow> pure_path list" where
  "path_prefixes p =
     map (\<lambda>k. \<lparr>anchor = anchor p, segments = take k (segments p)\<rparr>) [1..<Suc (length (segments p))]"

definition add_entry :: "'p filesystem \<Rightarrow> pure_path \<Rightarrow> 'p filesystem" where
  "add_entry fs q =
     (case fs (str (parent q)) of
        Some (Dir entries) \<Rightarrow> fs(str (parent q) \<mapsto> Dir (entries @ [last (segments q)]))
      | _ \<Rightarrow> fs)"

fun mkdir_chain :: "'p filesystem \<Rightarrow> pure_path list \<Rightarrow> pyerror + 'p filesystem" where
  "mkdir_chain fs [] = Inr fs"
| "mkdir_chain fs (q # qs) =
     (case fs (str q) of
        None \<Rightarrow> mkdir_chain (add_entry (fs(str q \<mapsto> Dir [])) q) qs
      | Some (Dir entries) \<Rightarrow> mkdir_chain fs qs
      | Some f \<Rightarrow> Inl (FileExistsError (str q)))"

definition example_os :: "'p os_module" where
  "example_os = \<lparr>makedirs = (\<lambda>fs p. mkdir_chain fs (path_prefixes (Path p)))\<rparr>"

text \<open>The same files without the checkpoint, and the driver's arguments for an input path.\<close>

definition example_files_no_checkpoint :: "real filesystem" where
  "example_files_no_checkpoint =
     [''.'' \<mapsto> Dir [''imgs'', ''notes.txt''],
      ''imgs'' \<mapsto> Dir [''a.jpg'', ''b.txt''],
      ''imgs/a.jpg'' \<mapsto> OtherFile,
      ''imgs/b.txt'' \<mapsto> OtherFile,
      ''notes.txt'' \<mapsto> OtherFile]"

definition example_files_no_checkpoint_after :: "real filesystem" where
  "example_files_no_checkpoint_after =
     example_files_no_checkpoint
       (''inference_outputs'' \<mapsto> Dir [],
        ''.'' \<mapsto> Dir [''imgs'', ''notes.txt'', ''inference_outputs''])"

definition example_io_no_checkpoint :: "real io" where
  "example_io_no_checkpoint = \<lparr>files = example_files_no_checkpoint, stdout = [], logged = []\<rparr>"

definition example_args :: "string \<Rightarrow> args" where
  "example_args p = \<lparr>input_path = p, output_folder = None, time_interval = 2\<rparr>"

text \<open>The DataFrame the first read of the label file allocates, and the state after it.\<close>

definition example_frame :: dataframe where
  "example_frame = \<lparr>columns = [''path'', ''cat'', ''dog''], rows = [[''a.jpg'', ''0'', ''1'']], obj_id = 0\<rparr>"

definition loaded_ds_state :: ds_state where
  "loaded_ds_state = \<lparr>dataset_csv = Some example_frame, next_id = 1, disk_reads = [''resnet.csv'']\<rparr>"

section \<open>Properties of the dataset cache\<close>

lemma foldl_upd_enumerate:
  "foldl (\<lambda>m (i, t). m(i \<mapsto> t)) m0 (enumerate n xs) =
     (\<lambda>k. if n \<le> k \<and> k < n + length xs then Some (xs ! (k - n)) else m0 k)"
proof (induction xs arbitrary: m0 n)
  case Nil
  show ?case by (rule ext) auto
next
  case (Cons x xs)
  have step: "(x # xs) ! (k - n) = xs ! (k - Suc n)" if "Suc n \<le> k" for k
  proof -
    from that have "k - n = Suc (k - Suc n)" by arith
    then show ?thesis by simp
  qed
  show ?case
    unfolding enumerate_simps foldl_Cons prod.case Cons.IH
    by (rule ext) (auto simp: step)
qed

lemma get_index_to_tag_mapping_apply:
  "get_index_to_tag_mapping csv i =
     (if i + 1 < length (columns csv) then Some (columns csv ! (i + 1)) else None)"
  unfolding get_index_to_tag_mapping_def Let_def foldl_upd_enumerate
  by auto

lemma load_dataset_csv_cached:
  "dataset_csv st = Some r \<Longrightarrow> load_dataset_csv pu disk cfg st = (Inr r, st)"
  by (simp add: load_dataset_csv_def get_dataset_csv_def)

lemma get_dataset_csv_first:
  assumes "dataset_csv st = None" and "disk (get_dataset_path pu cfg) = Some t"
  shows "get_dataset_csv pu disk cfg st =
           (Inr \<lparr>columns = columns t, rows = rows t, obj_id = next_id st\<rparr>,
            st\<lparr>dataset_csv := Some \<lparr>columns = columns t, rows = rows t, obj_id = next_id st\<rparr>,
               next_id := Suc (next_id st),
               disk_reads := disk_reads st @ [get_dataset_path pu cfg]\<rparr>)"
  using assms by (simp add: get_dataset_csv_def read_csv_def Let_def)

lemma load_dataset_csv_first:
  assumes "dataset_csv st = None" and "disk (get_dataset_path pu cfg) = Some t"
  shows "load_dataset_csv pu disk cfg st =
           (Inr \<lparr>columns = columns t, rows = rows t, obj_id = next_id st\<rparr>,
            st\<lparr>dataset_csv := Some \<lparr>columns = columns t, rows = rows t, obj_id = next_id st\<rparr>,
               next_id := Suc (next_id st),
               disk_reads := disk_reads st @ [get_dataset_path pu cfg]\<rparr>)"
  using assms by (simp add: load_dataset_csv_def get_dataset_csv_first [where t = t])

text \<open>
  C5. With the cache empty and the file present, a first access through any of the
  three entry points, or through \<open>__get_dataset_csv\<close> itself, reads the file once,
  allocates one DataFrame object, stores it in the global and builds its result from
  it; all four end in the same state. From then on, whatever configuration is passed and
  whatever is on disk, \<open>__get_dataset_csv\<close> returns that very object (same identity),
  every entry point builds its result from it, and the state, the record of disk reads
  included, is left as it was.
\<close>

theorem dataset_csv_read_once:
  "(dataset_csv st0 = None \<and> disk (get_dataset_path pu cfg) = Some t \<longrightarrow>
      (\<exists>csv st1.
           csv = \<lparr>columns = columns t, rows = rows t, obj_id = next_id st0\<rparr>
         \<and> st1 = st0\<lparr>dataset_csv := Some csv, next_id := Suc (next_id st0),
                      disk_reads := disk_reads st0 @ [get_dataset_path pu cfg]\<rparr>
         \<and> get_dataset_csv pu disk cfg st0 = (Inr csv, st1)
         \<and> get_dataset_tag_mappings pu disk cfg st0 = (Inr (get_index_to_tag_mapping csv), st1)
         \<and> get_data_loader_by_name lib pu disk mode cfg shuffle st0 =
             (Inr (DataLoader lib (ImageDataset lib csv mode cfg) (config.batch_size cfg) shuffle), st1)
         \<and> get_train_valid_test_loaders lib pu disk cfg st0 =
             (Inr (DataLoader lib (ImageDataset lib csv ''train'' cfg) (config.batch_size cfg) True,
                   DataLoader lib (ImageDataset lib csv ''valid'' cfg) (config.batch_size cfg) False,
                   DataLoader lib (ImageDataset lib csv ''test'' cfg) (config.batch_size cfg) False), st1)))
   \<and> (dataset_csv st = Some cached \<longrightarrow>
        get_dataset_csv pu disk' cfg' st = (Inr cached, st)
      \<and> get_dataset_tag_mappings pu disk' cfg' st = (Inr (get_index_to_tag_mapping cached), st)
      \<and> get_data_loader_by_name lib pu disk' mode cfg' shuffle st =
          (Inr (DataLoader lib (ImageDataset lib cached mode cfg') (config.batch_size cfg') shuffle), st)
      \<and> get_train_valid_test_loaders lib pu disk' cfg' st =
          (Inr (DataLoader lib (ImageDataset lib cached ''train'' cfg') (config.batch_size cfg') True,
                DataLoader lib (ImageDataset lib cached ''valid'' cfg') (config.batch_size cfg') False,
                DataLoader lib (ImageDataset lib cached ''test'' cfg') (config.batch_size cfg') False), st))"
proof (intro conjI impI)
  assume a: "dataset_csv st0 = None \<and> disk (get_dataset_path pu cfg) = Some t"
  then have n: "dataset_csv st0 = None" and d: "disk (get_dataset_path pu cfg) = Some t"
    by simp_all
  let ?csv = "\<lparr>columns = columns t, rows = rows t, obj_id = next_id st0\<rparr>"
  let ?st1 = "st0\<lparr>dataset_csv := Some ?csv, next_id := Suc (next_id st0),
                  disk_reads := disk_reads st0 @ [get_dataset_path pu cfg]\<rparr>"
  have g: "get_dataset_csv pu disk cfg st0 = (Inr ?csv, ?st1)"
    using n d by (simp add: get_dataset_csv_first [where t = t])
  have l: "load_dataset_csv pu disk cfg st0 = (Inr ?csv, ?st1)"
    using n d by (simp add: load_dataset_csv_first [where t = t])
  have m: "get_dataset_tag_mappings pu disk cfg st0 = (Inr (get_index_to_tag_mapping ?csv), ?st1)"
    by (simp add: get_dataset_tag_mappings_def l)
  have b: "get_data_loader_by_name lib pu disk mode cfg shuffle st0 =
             (Inr (DataLoader lib (ImageDataset lib ?csv mode cfg) (config.batch_size cfg) shuffle), ?st1)"
    by (simp add: get_data_loader_by_name_def l)
  have v: "get_train_valid_test_loaders lib pu disk cfg st0 =
             (Inr (DataLoader lib (ImageDataset lib ?csv ''train'' cfg) (config.batch_size cfg) True,
                   DataLoader lib (ImageDataset lib ?csv ''valid'' cfg) (config.batch_size cfg) False,
                   DataLoader lib (ImageDataset lib ?csv ''test'' cfg) (config.batch_size cfg) False), ?st1)"
    by (simp add: get_train_valid_test_loaders_def l)
  from g m b v show "\<exists>csv st1.
           csv = \<lparr>columns = columns t, rows = rows t, obj_id = next_id st0\<rparr>
         \<and> st1 = st0\<lparr>dataset_csv := Some csv, next_id := Suc (next_id st0),
                      disk_reads := disk_reads st0 @ [get_dataset_path pu cfg]\<rparr>
         \<and> get_dataset_csv pu disk cfg st0 = (Inr csv, st1)
         \<and> get_dataset_tag_mappings pu disk cfg st0 = (Inr (get_index_to_tag_mapping csv), st1)
         \<and> get_data_loader_by_name lib pu disk mode cfg shuffle st0 =
             (Inr (DataLoader lib (ImageDataset lib csv mode cfg) (config.batch_size cfg) shuffle), st1)
         \<and> get_train_valid_test_loaders lib pu disk cfg st0 =
             (Inr (DataLoader lib (ImageDataset lib csv ''train'' cfg) (config.batch_size cfg) True,
                   DataLoader lib (ImageDataset lib csv ''valid'' cfg) (config.batch_size cfg) False,
                   DataLoader lib (ImageDataset lib csv ''test'' cfg) (config.batch_size cfg) False), st1)"
    by blast
next
  assume c: "dataset_csv st = Some cached"
  show "get_dataset_csv pu disk' cfg' st = (Inr cached, st)"
    using c by (simp add: get_dataset_csv_def)
  show "get_dataset_tag_mappings pu disk' cfg' st = (Inr (get_index_to_tag_mapping cached), st)"
    using c by (simp add: get_dataset_tag_mappings_def load_dataset_csv_cached)
  show "get_data_loader_by_name lib pu disk' mode cfg' shuffle st =
          (Inr (DataLoader lib (ImageDataset lib cached mode cfg') (config.batch_size cfg') shuffle), st)"
    using c by (simp add: get_data_loader_by_name_def load_dataset_csv_cached)
  show "get_train_valid_test_loaders lib pu disk' cfg' st =
          (Inr (DataLoader lib (ImageDataset lib cached ''train'' cfg') (config.batch_size cfg') True,
                DataLoader lib (ImageDataset lib cached ''valid'' cfg') (config.batch_size cfg') False,
                DataLoader lib (ImageDataset lib cached ''test'' cfg') (config.batch_size cfg') False), st)"
    using c by (simp add: get_train_valid_test_loaders_def load_dataset_csv_cached)
qed

lemma example_first_load:
  "load_dataset_csv example_pathutils example_disk example_config initial_ds_state
     = (Inr example_frame, loaded_ds_state)"
  by (simp add: load_dataset_csv_def get_dataset_csv_def read_csv_def initial_ds_state_def
      example_pathutils_def example_disk_def example_config_def example_table_def
      example_frame_def loaded_ds_state_def)

theorem dataset_csv_read_once_witness:
  "dataset_csv initial_ds_state = None
   \<and> example_disk (get_dataset_path example_pathutils example_config) = Some example_table
   \<and> get_data_loader_by_name example_loaders example_pathutils example_disk ''valid'' example_config
        False initial_ds_state = (Inr ((example_frame, ''valid''), 2, False), loaded_ds_state)
   \<and> get_dataset_csv example_pathutils example_disk example_config initial_ds_state
       = (Inr example_frame, loaded_ds_state)
   \<and> dataset_csv loaded_ds_state = Some example_frame
   \<and> disk_reads loaded_ds_state = [''resnet.csv'']
   \<and> get_dataset_csv example_pathutils Map.empty other_config loaded_ds_state
       = (Inr example_frame, loaded_ds_state)
   \<and> get_dataset_tag_mappings example_pathutils Map.empty other_config loaded_ds_state
       = (Inr (get_index_to_tag_mapping example_frame), loaded_ds_state)
   \<and> get_data_loader_by_name example_loaders example_pathutils Map.empty ''test'' other_config False
        loaded_ds_state = (Inr ((example_frame, ''test''), 8, False), loaded_ds_state)"
proof -
  have n: "dataset_csv initial_ds_state = None"
    by (simp add: initial_ds_state_def)
  have d: "example_disk (get_dataset_path example_pathutils example_config) = Some example_table"
    by (simp add: example_disk_def example_pathutils_def example_config_def)
  have c: "dataset_csv loaded_ds_state = Some example_frame"
    by (simp add: loaded_ds_state_def)
  have r: "disk_reads loaded_ds_state = [''resnet.csv'']"
    by (simp add: loaded_ds_state_def)
  have f: "\<lparr>columns = columns example_table, rows = rows example_table,
            obj_id = next_id initial_ds_state\<rparr> = example_frame"
    by (simp add: example_table_def example_frame_def initial_ds_state_def)
  have s: "initial_ds_state\<lparr>dataset_csv := Some example_frame,
              next_id := Suc (next_id initial_ds_state),
              disk_reads := disk_reads initial_ds_state
                 @ [get_dataset_path example_pathutils example_config]\<rparr> = loaded_ds_state"
    by (simp add: initial_ds_state_def loaded_ds_state_def example_pathutils_def example_config_def)
  have l1: "DataLoader example_loaders (ImageDataset example_loaders example_frame ''valid'' example_config)
             (config.batch_size example_config) False = ((example_frame, ''valid''), 2, False)"
    by (simp add: example_loaders_def example_config_def)
  have l2: "DataLoader example_loaders (ImageDataset example_loaders example_frame ''test'' other_config)
             (config.batch_size other_config) False = ((example_frame, ''test''), 8, False)"
    by (simp add: example_loaders_def other_config_def)
  from dataset_csv_read_once [where ?st0.0 = initial_ds_state and disk = example_disk
      and pu = example_pathutils and cfg = example_config and t = example_table
      and st = loaded_ds_state and cached = example_frame and disk' = "Map.empty"
      and cfg' = other_config and lib = example_loaders and mode = "''test''"
      and shuffle = False]
    n d c
  have later: "get_dataset_csv example_pathutils Map.empty other_config loaded_ds_state
       = (Inr example_frame, loaded_ds_state)
   \<and> get_dataset_tag_mappings example_pathutils Map.empty other_config loaded_ds_state
       = (Inr (get_index_to_tag_mapping example_frame), loaded_ds_state)
   \<and> get_data_loader_by_name example_loaders example_pathutils Map.empty ''test'' other_config False
        loaded_ds_state = (Inr ((example_frame, ''test''), 8, False), loaded_ds_state)"
    by (simp add: l2)
  from dataset_csv_read_once [where ?st0.0 = initial_ds_state and disk = example_disk
      and pu = example_pathutils and cfg = example_config and t = example_table
      and lib = example_loaders and mode = "''valid''" and shuffle = False,
      THEN conjunct1, THEN mp, OF conjI [OF n d]]
  have first: "get_data_loader_by_name example_loaders example_pathutils example_disk ''valid''
        example_config False initial_ds_state
          = (Inr ((example_frame, ''valid''), 2, False), loaded_ds_state)
   \<and> get_dataset_csv example_pathutils example_disk example_config initial_ds_state
       = (Inr example_frame, loaded_ds_state)"
    by (simp add: f s l1)
  from n d c r first later show ?thesis by blast
qed

text \<open>
  C4. When \<open>get_dataset_tag_mappings\<close> returns a mapping, the cache holds a table, and
  for its \<open>C\<close> columns the mapping's domain is \<open>{0, ..., C - 2}\<close>, index \<open>i\<close> is mapped to the
  name of column \<open>i + 1\<close>, and the mapping has \<open>C - 1\<close> entries. The count is stated over
  the integers, hence for a table with at least one column; \<open>pd.read_csv\<close> returns no
  table without columns.
\<close>

theorem tag_mappings_enumerate_columns:
  assumes "get_dataset_tag_mappings pu disk cfg st = (Inr m, st')"
  shows "\<exists>csv. dataset_csv st' = Some csv
     \<and> dom m = {i. int i \<le> int (length (columns csv)) - 2}
     \<and> (\<forall>i. int i \<le> int (length (columns csv)) - 2 \<longrightarrow> m i = Some (columns csv ! (i + 1)))
     \<and> (columns csv \<noteq> [] \<longrightarrow> int (card (dom m)) = int (length (columns csv)) - 1)"
proof -
  from assms obtain csv where l: "load_dataset_csv pu disk cfg st = (Inr csv, st')"
    and m: "m = get_index_to_tag_mapping csv"
    by (auto simp: get_dataset_tag_mappings_def split: prod.splits sum.splits)
  from l have c: "dataset_csv st' = Some csv"
    by (auto simp: load_dataset_csv_def split: prod.splits sum.splits)
  have d: "dom m = {i. int i \<le> int (length (columns csv)) - 2}"
    unfolding m dom_def get_index_to_tag_mapping_apply by auto
  have v: "\<forall>i. int i \<le> int (length (columns csv)) - 2 \<longrightarrow> m i = Some (columns csv ! (i + 1))"
    unfolding m get_index_to_tag_mapping_apply by auto
  have "dom m = {0..<length (columns csv) - 1}"
    unfolding d by auto
  then have k: "columns csv \<noteq> [] \<longrightarrow> int (card (dom m)) = int (length (columns csv)) - 1"
    by (cases "columns csv") auto
  from c d v k show ?thesis by blast
qed

lemma example_tag_mappings:
  "get_dataset_tag_mappings example_pathutils example_disk example_config initial_ds_state
     = (Inr (get_index_to_tag_mapping example_frame), loaded_ds_state)"
  by (simp add: get_dataset_tag_mappings_def example_first_load)

theorem tag_mappings_enumerate_columns_witness:
  "get_dataset_tag_mappings example_pathutils example_disk example_config initial_ds_state
     = (Inr (get_index_to_tag_mapping example_frame), loaded_ds_state)
   \<and> columns example_frame = [''path'', ''cat'', ''dog'']
   \<and> dom (get_index_to_tag_mapping example_frame) = {0, 1}
   \<and> get_index_to_tag_mapping example_frame 0 = Some ''cat''
   \<and> get_index_to_tag_mapping example_frame 1 = Some ''dog''
   \<and> card (dom (get_index_to_tag_mapping example_frame)) = 2"
proof -
  have cols: "columns example_frame = [''path'', ''cat'', ''dog'']"
    by (simp add: example_frame_def)
  have c: "dataset_csv loaded_ds_state = Some example_frame"
    by (simp add: loaded_ds_state_def)
  from tag_mappings_enumerate_columns [OF example_tag_mappings] c
  have d: "dom (get_index_to_tag_mapping example_frame) = {i. int i \<le> int (length (columns example_frame)) - 2}"
    and v: "\<forall>i. int i \<le> int (length (columns example_frame)) - 2 \<longrightarrow>
               get_index_to_tag_mapping example_frame i = Some (columns example_frame ! (i + 1))"
    and k: "columns example_frame \<noteq> [] \<longrightarrow>
               int (card (dom (get_index_to_tag_mapping example_frame))) = int (length (columns example_frame)) - 1"
    by auto
  have "{i. int i \<le> int (length (columns example_frame)) - 2} = {0, 1::nat}"
    unfolding cols by auto
  with d have d': "dom (get_index_to_tag_mapping example_frame) = {0, 1}" by simp
  from v have v0: "get_index_to_tag_mapping example_frame 0 = Some ''cat''"
    and v1: "get_index_to_tag_mapping example_frame 1 = Some ''dog''"
    unfolding cols by auto
  from k have k': "card (dom (get_index_to_tag_mapping example_frame)) = 2"
    unfolding cols by simp
  from example_tag_mappings cols d' v0 v1 k' show ?thesis by blast
qed

section \<open>predict\<close>

lemma predict_loop_Inr:
  "predict_loop net crit bs (preds, trues, t) = Inr (preds', trues', t') \<Longrightarrow>
     preds' = preds @ map (\<lambda>b. net (image b)) bs \<and> trues' = trues @ map label bs
     \<and> (\<exists>ls. map (\<lambda>b. crit (net (image b)) (map (map real_of_int) (label b))) bs = map Inr ls
              \<and> t' = t + sum_list ls)"
proof (induction bs arbitrary: preds trues t)
  case Nil
  then show ?case by simp
next
  case (Cons b bs)
  from Cons.prems obtain l where
    l: "crit (net (image b)) (map (map real_of_int) (label b)) = Inr l"
    and r: "predict_loop net crit bs (preds @ [net (image b)], trues @ [label b], t + l) = Inr (preds', trues', t')"
    by (auto simp: Let_def split: sum.splits)
  from Cons.IH [OF r] obtain ls where
    "preds' = (preds @ [net (image b)]) @ map (\<lambda>b. net (image b)) bs"
    "trues' = (trues @ [label b]) @ map label bs"
    "map (\<lambda>b. crit (net (image b)) (map (map real_of_int) (label b))) bs = map Inr ls"
    "t' = t + l + sum_list ls"
    by blast
  then show ?case using l
    by (auto intro!: exI [of _ "l # ls"])
qed

lemma predict_Inr:
  assumes "predict nn self dl = Inr (P, T, a)"
  shows "P = concat (map (\<lambda>b. forward nn (eval_mode nn (model self)) (image b)) (batches dl))"
    and "T = concat (map label (batches dl))"
    and "\<exists>ls. map (\<lambda>b. criterion self (forward nn (eval_mode nn (model self)) (image b))
                          (map (map real_of_int) (label b))) (batches dl) = map Inr ls
              \<and> a = sum_list ls / real (length (dataset dl))"
    and "batches dl \<noteq> []" and "dataset dl \<noteq> []"
proof -
  let ?net = "forward nn (eval_mode nn (model self))"
  from assms obtain preds trues t where
    loop: "predict_loop ?net (criterion self) (batches dl) ([], [], 0) = Inr (preds, trues, t)"
    and vp: "vstack preds = Inr P" and vt: "vstack trues = Inr T"
    and n: "length (dataset dl) \<noteq> 0" and a: "a = t / real (length (dataset dl))"
    by (auto simp: predict_def split: sum.splits if_splits)
  from predict_loop_Inr [OF loop] obtain ls where
    preds: "preds = map (\<lambda>b. ?net (image b)) (batches dl)" and trues: "trues = map label (batches dl)"
    and ls: "map (\<lambda>b. criterion self (?net (image b)) (map (map real_of_int) (label b))) (batches dl) = map Inr ls"
    and t: "t = sum_list ls"
    by auto
  from vp show "P = concat (map (\<lambda>b. ?net (image b)) (batches dl))"
    by (auto simp: vstack_def preds Let_def split: if_splits)
  from vt show "T = concat (map label (batches dl))"
    by (auto simp: vstack_def trues Let_def split: if_splits)
  from ls t a show "\<exists>ls. map (\<lambda>b. criterion self (?net (image b))
                          (map (map real_of_int) (label b))) (batches dl) = map Inr ls
              \<and> a = sum_list ls / real (length (dataset dl))"
    by blast
  from vp show "batches dl \<noteq> []"
    by (auto simp: vstack_def preds split: if_splits)
  from n show "dataset dl \<noteq> []" by simp
qed

lemma zip_concat_map:
  "\<forall>b \<in> set bs. length (f b) = length (g b) \<Longrightarrow>
     zip (concat (map f bs)) (concat (map g bs)) = concat (map (\<lambda>b. zip (f b) (g b)) bs)"
  by (induction bs) simp_all

lemma length_concat_map:
  "\<forall>b \<in> set bs. length (f b) = length (g b) \<Longrightarrow>
     length (concat (map f bs)) = sum_list (map (\<lambda>b. length (g b)) bs)"
  by (induction bs) simp_all

lemma sigmoid_0: "sigmoid 0 = 1 / 2"
  by (simp add: sigmoid_def)

lemma bce_with_logits_0_0: "bce_with_logits 0 0 = ln 2"
  by (simp add: bce_with_logits_def sigmoid_0 ln_div)

lemma example_from_file:
  "from_file example_torch example_modelfactory example_pathutils example_files example_config
     CPU None example_config =
   (Inr (init 0 (BCEWithLogitsLoss Mean) CPU None example_config (Some 7)),
    [(INFO, ''Loading the best model...'')])"
  by (simp add: from_file_def example_torch_def example_modelfactory_def example_pathutils_def
      example_files_def example_config_def path_exists_def load_model_def)

text \<open>
  C1. \<open>predict\<close> returns the stacked scores, the stacked labels and the accumulated loss
  divided by the number of samples (\<open>predict_Inr\<close>). The accumulated loss is the sum of
  what the criterion returns for each batch, and \<open>from_file\<close> builds the criterion as
  \<open>nn.BCEWithLogitsLoss()\<close>, whose reduction is the mean. For the evaluator \<open>from_file\<close>
  returns and one batch of two samples with two classes, all logits and labels 0, the
  result is \<open>ln 2 / 2\<close>, while the sum-reduced loss divided by the two samples is
  \<open>4 * ln 2 / 2\<close>.
\<close>

theorem predict_avg_loss_mean_reduction:
  "fst (from_file example_torch example_modelfactory example_pathutils example_files
          example_config CPU None example_config)
     = Inr (init 0 (BCEWithLogitsLoss Mean) CPU None example_config (Some 7))
   \<and> predict example_torch (init 0 (BCEWithLogitsLoss Mean) CPU None example_config (Some 7))
        example_loader = Inr ([[0, 0], [0, 0]], [[0, 0], [0, 0]], ln 2 / 2)
   \<and> BCEWithLogitsLoss Sum [[0, 0], [0, 0]] [[0, 0], [0, 0]] = Inr (4 * ln 2)
   \<and> length (dataset example_loader) = 2
   \<and> ln 2 / 2 \<noteq> 4 * ln (2::real) / 2"
proof (intro conjI)
  show "fst (from_file example_torch example_modelfactory example_pathutils example_files
          example_config CPU None example_config)
     = Inr (init 0 (BCEWithLogitsLoss Mean) CPU None example_config (Some 7))"
    by (simp add: example_from_file)
  show "predict example_torch (init 0 (BCEWithLogitsLoss Mean) CPU None example_config (Some 7))
        example_loader = Inr ([[0, 0], [0, 0]], [[0, 0], [0, 0]], ln 2 / 2)"
    by (simp add: predict_def init_def example_torch_def example_loader_def
        BCEWithLogitsLoss_def bce_with_logits_0_0 vstack_def)
  show "BCEWithLogitsLoss Sum [[0, 0], [0, 0]] [[0, 0], [0, 0]] = Inr (4 * ln 2)"
    by (simp add: BCEWithLogitsLoss_def bce_with_logits_0_0)
  show "length (dataset example_loader) = 2"
    by (simp add: example_loader_def)
  have "0 < ln (2::real)" by simp
  then show "ln 2 / 2 \<noteq> 4 * ln (2::real) / 2" by simp
qed

text \<open>
  C2, as amended. When \<open>predict\<close> returns, for batches with one label row and one score
  row per image: the two matrices are the batches' outputs and labels concatenated in
  the order of iteration, row \<open>i\<close> of the scores is paired with row \<open>i\<close> of the labels,
  both coming from the same position of the same batch, and both have as many rows as
  the batches hold samples. That number is the length of the dataset when the batches
  cover the dataset once; \<open>predict\<close> itself never compares the two.
\<close>

theorem predict_rows_in_iteration_order:
  assumes ret: "predict nn self dl = Inr (P, T, avg_loss)"
    and shape: "\<forall>b \<in> set (batches dl).
                  length (label b) = length (image b)
                \<and> length (forward nn (eval_mode nn (model self)) (image b)) = length (image b)"
  shows "P = concat (map (\<lambda>b. forward nn (eval_mode nn (model self)) (image b)) (batches dl))
       \<and> T = concat (map label (batches dl))
       \<and> zip P T = concat (map (\<lambda>b. zip (forward nn (eval_mode nn (model self)) (image b)) (label b))
                          (batches dl))
       \<and> length P = sum_list (map (\<lambda>b. length (image b)) (batches dl))
       \<and> length T = sum_list (map (\<lambda>b. length (image b)) (batches dl))
       \<and> (sum_list (map (\<lambda>b. length (image b)) (batches dl)) = length (dataset dl) \<longrightarrow>
            length P = length (dataset dl) \<and> length T = length (dataset dl))"
proof -
  let ?net = "forward nn (eval_mode nn (model self))"
  note P = predict_Inr(1) [OF ret] and T = predict_Inr(2) [OF ret]
  have lp: "length P = sum_list (map (\<lambda>b. length (image b)) (batches dl))"
    unfolding P using shape
    by (subst length_concat_map [where g = image]) auto
  have lt: "length T = sum_list (map (\<lambda>b. length (image b)) (batches dl))"
    unfolding T using shape
    by (subst length_concat_map [where g = image]) auto
  have z: "zip P T = concat (map (\<lambda>b. zip (?net (image b)) (label b)) (batches dl))"
    unfolding P T using shape by (intro zip_concat_map) auto
  from lp lt P T z show ?thesis by simp
qed

lemma example_predict3:
  "predict example_torch (init 0 (BCEWithLogitsLoss Mean) CPU None example_config (Some 7))
       example_loader3 =
     Inr ([[1, -1], [2, -2], [3, -3]], [[1, 0], [0, 1], [1, 1]],
          ((bce_with_logits 1 1 + (bce_with_logits (- 1) 0
              + (bce_with_logits 2 0 + bce_with_logits (- 2) 1))) / 4
           + (bce_with_logits 3 1 + bce_with_logits (- 3) 1) / 2) / 3)"
  by (simp add: predict_def init_def example_torch_def example_loader3_def
      BCEWithLogitsLoss_def vstack_def)

theorem predict_rows_in_iteration_order_witness:
  "\<exists>P T a. predict example_torch (init 0 (BCEWithLogitsLoss Mean) CPU None example_config (Some 7))
       example_loader3 = Inr (P, T, a)
     \<and> length P = length (dataset example_loader3) \<and> length T = length (dataset example_loader3)
     \<and> zip P T = concat (map (\<lambda>b. zip (forward example_torch (eval_mode example_torch
                  (model (init 0 (BCEWithLogitsLoss Mean) CPU None example_config (Some 7)
                            :: (real, nat) ModelEvaluator))) (image b)) (label b))
                          (batches example_loader3))
     \<and> zip P T = [([1, -1], [1, 0]), ([2, -2], [0, 1]), ([3, -3], [1, 1])]"
proof -
  let ?ev = "init 0 (BCEWithLogitsLoss Mean) CPU None example_config (Some 7)
               :: (real, nat) ModelEvaluator"
  note ret = example_predict3
  have cover: "sum_list (map (\<lambda>b. length (image b)) (batches example_loader3))
                 = length (dataset example_loader3)"
    by (simp add: example_loader3_def)
  have shape: "\<forall>b \<in> set (batches example_loader3).
                  length (label b) = length (image b)
                \<and> length (forward example_torch (eval_mode example_torch (model ?ev)) (image b))
                    = length (image b)"
    by (simp add: example_loader3_def example_torch_def)
  have z: "zip [[1, -1], [2, -2], [3, -3 :: real]] [[1, 0], [0, 1], [1, 1 :: int]]
          = [([1, -1], [1, 0]), ([2, -2], [0, 1]), ([3, -3], [1, 1])]"
    by simp
  from predict_rows_in_iteration_order [OF ret shape] cover
  have "length [[1, -1], [2, -2], [3, -3 :: real]] = length (dataset example_loader3)
      \<and> length [[1, 0], [0, 1], [1, 1 :: int]] = length (dataset example_loader3)
      \<and> zip [[1, -1], [2, -2], [3, -3 :: real]] [[1, 0], [0, 1], [1, 1 :: int]]
          = concat (map (\<lambda>b. zip (forward example_torch (eval_mode example_torch (model ?ev))
                                     (image b)) (label b)) (batches example_loader3))"
    by blast
  with z ret show ?thesis by blast
qed

text \<open>
  C2 as stated fails for a data source that drops its last, incomplete batch: three
  samples, batches of two, one batch. \<open>predict\<close> returns two rows.
\<close>

theorem predict_rows_drop_last_counterexample:
  "predict example_torch (init 0 (BCEWithLogitsLoss Mean) CPU None example_config (Some 7))
       drop_last_loader =
     Inr ([[1, -1], [2, -2]], [[1, 0], [0, 1]],
          ((bce_with_logits 1 1 + (bce_with_logits (- 1) 0
              + (bce_with_logits 2 0 + bce_with_logits (- 2) 1))) / 4) / 3)
   \<and> length [[1, -1], [2, -2 :: real]] = 2
   \<and> length (dataset drop_last_loader) = 3"
  by (simp add: predict_def init_def example_torch_def drop_last_loader_def
      BCEWithLogitsLoss_def vstack_def)


section \<open>evaluate\<close>

lemma sigmoid_gt_half: "1 / 2 < sigmoid x \<longleftrightarrow> 0 < x"
proof -
  have pos: "0 < 1 + exp (- x)" by (simp add: add_pos_pos)
  have "1 / 2 < 1 / (1 + exp (- x)) \<longleftrightarrow> 1 + exp (- x) < 2"
    using pos by (simp add: field_simps)
  also have "\<dots> \<longleftrightarrow> exp (- x) < 1" by auto
  also have "\<dots> \<longleftrightarrow> 0 < x" by simp
  finally show ?thesis by (simp add: sigmoid_def)
qed

lemma binarize_half: "binarize False (1 / 2) x = (if 0 < x then 1 else 0)"
  unfolding binarize_def using sigmoid_gt_half [of x] by simp

lemma example_binarized:
  "getpredictions_with_threshold example_metricutils [[1, -1], [2, -2], [3, -3]] None
     = [[1, 0], [1, 0], [1, 0]]"
  by (simp add: example_metricutils_def getpredictions_with_threshold_spec_def binarize_half)

lemma example_metrics:
  "compute_metrics example_metricutils [[1, 0], [0, 1], [1, 1]] [[1, 0], [1, 0], [1, 0]] None (Some ''micro'')
     = (Scalar (2 / 3), Scalar (1 / 2), Scalar (4 / 7))"
  by (simp add: example_metricutils_def)

lemma example_predict_evaluator:
  "predict example_torch example_evaluator example_loader3 =
     Inr ([[1, -1], [2, -2], [3, -3]], [[1, 0], [0, 1], [1, 1]], example_avg_loss)"
  by (simp add: predict_def init_def example_evaluator_def example_torch_def example_loader3_def
      BCEWithLogitsLoss_def vstack_def example_avg_loss_def)

lemma example_write_image_test_results:
  "write_image_test_results example_imageutils example_pathutils example_disk example_writer
     [3] [[1, 1]] [[1, 0]] 4 ''Test'' ''valid'' initial_ds_state
   = (Inr (), example_writer\<lparr>writer := Some example_events\<rparr>, loaded_ds_state)"
proof -
  have tb: "tb_config example_writer = example_config"
    by (simp add: example_writer_def)
  show ?thesis
    unfolding write_image_test_results_def Let_def tb example_tag_mappings
    by (simp add: example_writer_def add_images_def example_imageutils_def example_config_def
        example_events_def)
qed

lemma example_evaluate_predictions:
  "evaluate_predictions example_metricutils example_imageutils example_pathutils example_disk
     example_evaluator example_loader3 [[1, -1], [2, -2], [3, -3]] [[1, 0], [0, 1], [1, 1]]
     4 ''valid'' (Some ''micro'') (Some ''Test'') None example_world
   = (Inr (Scalar (4 / 7), Scalar (2 / 3), Scalar (1 / 2)),
      example_evaluator\<lparr>tensorBoardWriter := Some (example_writer\<lparr>writer := Some example_events\<rparr>)\<rparr>,
      \<lparr>ds = loaded_ds_state, rng = \<lparr>draws = (\<lambda>k. 5), pos = 1\<rparr>\<rparr>)"
proof -
  have r: "randint 0 1 \<lparr>draws = (\<lambda>k. 5), pos = 0\<rparr> = (Inr 1, \<lparr>draws = (\<lambda>k. 5), pos = 1\<rparr>)"
    by (simp add: randint_def)
  have w: "tensorBoardWriter example_evaluator = Some example_writer"
    by (simp add: example_evaluator_def init_def)
  have n: "length (batches example_loader3) = 2"
    and b: "batches example_loader3 ! Suc 0 = \<lparr>image = [3], label = [[1, 1]]\<rparr>"
    and s: "data_loader.batch_size example_loader3 = 2"
    by (simp_all add: example_loader3_def)
  show ?thesis
    by (simp add: evaluate_predictions_def Let_def example_binarized example_metrics r w n b s slice_def
        example_write_image_test_results example_world_def)
qed

text \<open>
  C3. \<open>evaluate\<close> is \<open>predict\<close> followed by \<open>evaluate_predictions\<close> on the scores and labels
  \<open>predict\<close> returned, with the same data source, epoch, subset, averaging policy, metric
  mode and threshold and in the same state; its result is the average loss of \<open>predict\<close>
  put in front of the three metrics, and an exception of either step is the exception
  of \<open>evaluate\<close>.
\<close>

theorem evaluate_is_predict_then_evaluate_predictions:
  "(predict nn self dl = Inl e \<longrightarrow>
      evaluate nn mu iu pu disk self dl epoch datasetSubset metricMode average threshold w
        = (Inl e, self, w))
   \<and> (predict nn self dl = Inr (all_outputs, all_labels, avg_loss) \<longrightarrow>
        (evaluate_predictions mu iu pu disk self dl all_outputs all_labels epoch datasetSubset
             average metricMode threshold w = (Inl e', self1, w1) \<longrightarrow>
           evaluate nn mu iu pu disk self dl epoch datasetSubset metricMode average threshold w
             = (Inl e', self1, w1))
      \<and> (evaluate_predictions mu iu pu disk self dl all_outputs all_labels epoch datasetSubset
             average metricMode threshold w = (Inr (f1, precision, recall), self2, w2) \<longrightarrow>
           evaluate nn mu iu pu disk self dl epoch datasetSubset metricMode average threshold w
             = (Inr (avg_loss, f1, precision, recall), self2, w2)))"
  by (simp add: evaluate_def)

theorem evaluate_is_predict_then_evaluate_predictions_witness:
  "predict example_torch example_evaluator example_loader3 =
     Inr ([[1, -1], [2, -2], [3, -3]], [[1, 0], [0, 1], [1, 1]], example_avg_loss)
   \<and> evaluate example_torch example_metricutils example_imageutils example_pathutils example_disk
       example_evaluator example_loader3 4 ''valid'' (Some ''Test'') (Some ''micro'') None example_world
     = (Inr (example_avg_loss, Scalar (4 / 7), Scalar (2 / 3), Scalar (1 / 2)),
        example_evaluator\<lparr>tensorBoardWriter := Some (example_writer\<lparr>writer := Some example_events\<rparr>)\<rparr>,
        \<lparr>ds = loaded_ds_state, rng = \<lparr>draws = (\<lambda>k. 5), pos = 1\<rparr>\<rparr>)
   \<and> predict example_torch example_evaluator empty_loader
       = Inl (ValueError ''need at least one array to concatenate'')
   \<and> evaluate example_torch example_metricutils example_imageutils example_pathutils example_disk
       example_evaluator empty_loader 4 ''valid'' (Some ''Test'') (Some ''micro'') None example_world
     = (Inl (ValueError ''need at least one array to concatenate''), example_evaluator, example_world)"
proof -
  have p: "predict example_torch example_evaluator empty_loader
             = Inl (ValueError ''need at least one array to concatenate'')"
    by (simp add: predict_def empty_loader_def vstack_def)
  from evaluate_is_predict_then_evaluate_predictions
         [of example_torch example_evaluator example_loader3 _ example_metricutils
            example_imageutils example_pathutils example_disk 4 "''valid''" "Some ''Test''"
            "Some ''micro''" None example_world,
          THEN conjunct2, THEN mp, OF example_predict_evaluator,
          THEN conjunct2, THEN mp, OF example_evaluate_predictions]
    evaluate_is_predict_then_evaluate_predictions
         [of example_torch example_evaluator empty_loader _ example_metricutils
            example_imageutils example_pathutils example_disk 4 "''valid''" "Some ''Test''"
            "Some ''micro''" None example_world,
          THEN conjunct1, THEN mp, OF p]
    example_predict_evaluator p
  show ?thesis by simp
qed

section \<open>from_file\<close>

lemma example_output_folder:
  "resolve_output_folder (example_args ''imgs'') = ''inference_outputs''"
  "resolve_output_folder (example_args ''notes.txt'') = ''inference_outputs''"
  "resolve_output_folder (example_args ''nowhere'') = ''inference_outputs''"
  "resolve_output_folder (example_args ''./nowhere/'') = ''inference_outputs''"
  "resolve_output_folder (example_args ''inference_outputs'') = ''inference_outputs''"
  by (simp_all add: resolve_output_folder_def example_args_def Path_def str_def parent_def
      joinpath_def)


lemma from_file_missing:
  assumes "\<not> path_exists fs (get_model_to_load_path pu gconfig)"
  shows "from_file nn mf pu fs gconfig dev tbw thisconfig =
     (Inl (ValueError (''Could not find a model at path: '' @ get_model_to_load_path pu gconfig
             @ ''. Check to ensure the config/json value for model_name_to_load is correct!'')),
      [(ERROR, ''Could not find a model at path: '' @ get_model_to_load_path pu gconfig)])"
  using assms by (simp add: from_file_def Let_def)

lemma from_file_loaded:
  assumes "fs (get_model_to_load_path pu gconfig) = Some (Checkpoint state ep)"
  shows "from_file nn mf pu fs gconfig dev tbw thisconfig =
     (Inr (init (load_state_dict nn
                   (to_device nn (create_model mf (model_name gconfig) (model_requires_grad gconfig)
                      (config.num_classes gconfig) (model_weights gconfig)) dev) state)
             (BCEWithLogitsLoss Mean) dev tbw gconfig (Some ep)),
      [(INFO, ''Loading the best model...'')])"
  using assms by (simp add: from_file_def Let_def path_exists_def load_model_def)

text \<open>
  C6. When nothing exists at the path resolved from the module's configuration,
  \<open>from_file\<close> raises ValueError with a message that contains the path, and the driver,
  which calls \<open>from_file\<close> before it looks at its input, ends with that exception, having
  created the output folder and logged the error and nothing else: no dataset is built
  and no batch processed. When the path holds a checkpoint, \<open>from_file\<close> returns an
  evaluator whose model is the new model with the checkpoint's parameters loaded and
  whose epoch count is the checkpoint's.
\<close>

theorem from_file_checkpoint:
  "(\<not> path_exists fs (get_model_to_load_path pu gconfig) \<longrightarrow>
      (\<exists>msg lines pre post.
          from_file nn mf pu fs gconfig dev tbw thisconfig = (Inl (ValueError msg), lines)
        \<and> msg = pre @ get_model_to_load_path pu gconfig @ post)
      \<and> (makedirs os (files w) (resolve_output_folder args) = Inr fs \<longrightarrow>
           (\<exists>msg. main nn mf pu os lib tlib gconfig args w =
              (Inl (ValueError msg),
               w\<lparr>files := fs,
                  logged := logged w @ [(ERROR, ''Could not find a model at path: ''
                                              @ get_model_to_load_path pu gconfig)]\<rparr>))))
   \<and> (fs (get_model_to_load_path pu gconfig) = Some (Checkpoint state ep) \<longrightarrow>
      (\<exists>ev lines.
          from_file nn mf pu fs gconfig dev tbw thisconfig = (Inr ev, lines)
        \<and> model ev = load_state_dict nn
                        (to_device nn (create_model mf (model_name gconfig)
                           (model_requires_grad gconfig) (config.num_classes gconfig)
                           (model_weights gconfig)) dev) state
        \<and> epochs ev = Some ep))"
proof (intro conjI impI)
  assume m: "\<not> path_exists fs (get_model_to_load_path pu gconfig)"
  show "\<exists>msg lines pre post.
          from_file nn mf pu fs gconfig dev tbw thisconfig = (Inl (ValueError msg), lines)
        \<and> msg = pre @ get_model_to_load_path pu gconfig @ post"
    unfolding from_file_missing [OF m] by blast
  assume d: "makedirs os (files w) (resolve_output_folder args) = Inr fs"
  show "\<exists>msg. main nn mf pu os lib tlib gconfig args w =
              (Inl (ValueError msg),
               w\<lparr>files := fs,
                  logged := logged w @ [(ERROR, ''Could not find a model at path: ''
                                              @ get_model_to_load_path pu gconfig)]\<rparr>)"
    by (simp add: main_def Let_def d from_file_missing [OF m])
next
  assume c: "fs (get_model_to_load_path pu gconfig) = Some (Checkpoint state ep)"
  show "\<exists>ev lines.
          from_file nn mf pu fs gconfig dev tbw thisconfig = (Inr ev, lines)
        \<and> model ev = load_state_dict nn
                        (to_device nn (create_model mf (model_name gconfig)
                           (model_requires_grad gconfig) (config.num_classes gconfig)
                           (model_weights gconfig)) dev) state
        \<and> epochs ev = Some ep"
    using c by (simp add: from_file_loaded [where state = state and ep = ep] init_def)
qed

lemma example_makedirs_no_checkpoint:
  "makedirs example_os example_files_no_checkpoint ''inference_outputs''
     = Inr example_files_no_checkpoint_after"
  by (simp add: example_os_def path_prefixes_def add_entry_def Path_def str_def parent_def
      example_files_no_checkpoint_def example_files_no_checkpoint_after_def)

theorem from_file_checkpoint_witness:
  "(\<exists>msg lines pre post.
       from_file example_torch example_modelfactory example_pathutils
         example_files_no_checkpoint_after example_config CPU None
         other_config = (Inl (ValueError msg), lines)
     \<and> msg = pre @ ''resnet.pth'' @ post)
   \<and> (\<exists>msg. main example_torch example_modelfactory example_pathutils example_os example_inference_lib
         example_torch_data example_config (example_args ''imgs'') example_io_no_checkpoint
       = (Inl (ValueError msg),
          \<lparr>files = example_files_no_checkpoint_after, stdout = [],
           logged = [(ERROR, ''Could not find a model at path: resnet.pth'')]\<rparr>))
   \<and> (\<exists>ev lines.
         from_file example_torch example_modelfactory example_pathutils example_files example_config
           CPU None other_config = (Inr ev, lines)
       \<and> model ev = 0 \<and> epochs ev = Some 7)"
proof -
  let ?fs = "example_files_no_checkpoint_after"
  have p: "get_model_to_load_path example_pathutils example_config = ''resnet.pth''"
    by (simp add: example_pathutils_def example_config_def)
  have m: "\<not> path_exists ?fs (get_model_to_load_path example_pathutils example_config)"
    by (simp add: p path_exists_def example_files_no_checkpoint_def example_files_no_checkpoint_after_def)
  have d: "makedirs example_os (files example_io_no_checkpoint)
             (resolve_output_folder (example_args ''imgs'')) = Inr ?fs"
    by (simp add: example_output_folder example_io_no_checkpoint_def
        example_makedirs_no_checkpoint)
  have c: "example_files (get_model_to_load_path example_pathutils example_config)
             = Some (Checkpoint 0 7)"
    by (simp add: p example_files_def example_files_after_def)
  have l: "load_state_dict example_torch x 0 = 0" for x
    by (simp add: example_torch_def)
  from from_file_checkpoint [where fs = ?fs and pu = example_pathutils
      and gconfig = example_config and nn = example_torch and mf = example_modelfactory
      and dev = CPU and tbw = None and thisconfig = other_config and os = example_os
      and w = example_io_no_checkpoint and args = "example_args ''imgs''"
      and lib = example_inference_lib and tlib = example_torch_data] m d
  have a: "(\<exists>msg lines pre post.
       from_file example_torch example_modelfactory example_pathutils ?fs example_config CPU None
         other_config = (Inl (ValueError msg), lines)
     \<and> msg = pre @ ''resnet.pth'' @ post)
   \<and> (\<exists>msg. main example_torch example_modelfactory example_pathutils example_os example_inference_lib
         example_torch_data example_config (example_args ''imgs'') example_io_no_checkpoint
       = (Inl (ValueError msg),
          \<lparr>files = ?fs, stdout = [],
           logged = [(ERROR, ''Could not find a model at path: resnet.pth'')]\<rparr>))"
    by (simp add: p example_io_no_checkpoint_def)
  from from_file_checkpoint [where fs = example_files and pu = example_pathutils
      and gconfig = example_config and nn = example_torch and mf = example_modelfactory
      and dev = CPU and tbw = None and thisconfig = other_config and os = example_os
      and w = example_io_no_checkpoint and args = "example_args ''imgs''"
      and lib = example_inference_lib and tlib = example_torch_data and state = 0 and ep = 7,
      THEN conjunct2, THEN mp, OF c]
  have b: "\<exists>ev lines.
         from_file example_torch example_modelfactory example_pathutils example_files example_config
           CPU None other_config = (Inr ev, lines)
       \<and> model ev = 0 \<and> epochs ev = Some 7"
    by (simp add: l)
  from a b show ?thesis by blast
qed

text \<open>
  C10. \<open>from_file\<close> does not depend on its \<open>thisconfig\<close> argument: with everything else
  fixed, two calls with any two configurations return the same result and log the same
  lines.
\<close>

theorem from_file_ignores_thisconfig:
  "from_file nn mf pu fs gconfig dev tbw config1 = from_file nn mf pu fs gconfig dev tbw config2"
  by (simp add: from_file_def)

section \<open>binarize\<close>

lemma binarize_cases: "binarize inclusive t x = 0 \<or> binarize inclusive t x = 1"
  by (simp add: binarize_def)

lemma binarize_mono:
  "t1 \<le> t2 \<Longrightarrow> binarize inclusive t1 x = 0 \<Longrightarrow> binarize inclusive t2 x = 0"
  by (auto simp: binarize_def split: if_splits)

lemma getpredictions_nth:
  "i < length outputs \<Longrightarrow> j < length (outputs ! i) \<Longrightarrow>
     getpredictions_with_threshold_spec inclusive outputs t ! i ! j
       = binarize inclusive t (outputs ! i ! j)"
  by (simp add: getpredictions_with_threshold_spec_def)

text \<open>
  C7. Binarisation keeps the shape of the score matrix and decides every entry on its
  own, from that entry's sigmoid and the one threshold. For thresholds \<open>t1 \<le> t2\<close> (whether
  in [0, 1] or not), an entry that is negative at \<open>t1\<close> is negative at \<open>t2\<close>, with either
  reading of the comparison.
\<close>

theorem threshold_binarization_monotone:
  assumes "t1 \<le> t2"
  shows "map length (getpredictions_with_threshold_spec inclusive outputs t1) = map length outputs
    \<and> (\<forall>i j. i < length outputs \<and> j < length (outputs ! i) \<longrightarrow>
          getpredictions_with_threshold_spec inclusive outputs t1 ! i ! j
            = binarize inclusive t1 (outputs ! i ! j)
        \<and> (getpredictions_with_threshold_spec inclusive outputs t1 ! i ! j = 0 \<longrightarrow>
             getpredictions_with_threshold_spec inclusive outputs t2 ! i ! j = 0))
    \<and> (\<forall>x. binarize inclusive t1 x = (if (if inclusive then t1 \<le> sigmoid x else t1 < sigmoid x) then 1 else 0)
           \<and> (binarize inclusive t1 x = 0 \<longrightarrow> binarize inclusive t2 x = 0))"
proof (intro conjI allI impI)
  show "map length (getpredictions_with_threshold_spec inclusive outputs t1) = map length outputs"
    by (simp add: getpredictions_with_threshold_spec_def)
next
  fix i j assume b: "i < length outputs \<and> j < length (outputs ! i)"
  then show "getpredictions_with_threshold_spec inclusive outputs t1 ! i ! j
            = binarize inclusive t1 (outputs ! i ! j)"
    by (simp add: getpredictions_nth)
  assume "getpredictions_with_threshold_spec inclusive outputs t1 ! i ! j = 0"
  with b assms show "getpredictions_with_threshold_spec inclusive outputs t2 ! i ! j = 0"
    by (simp add: getpredictions_nth binarize_mono)
next
  fix x
  show "binarize inclusive t1 x = (if (if inclusive then t1 \<le> sigmoid x else t1 < sigmoid x) then 1 else 0)"
    by (simp add: binarize_def)
  assume "binarize inclusive t1 x = 0"
  with assms show "binarize inclusive t2 x = 0" by (rule binarize_mono)
qed


theorem threshold_binarization_monotone_witness:
  "(1 / 2 :: real) \<le> 3 / 4
   \<and> getpredictions_with_threshold_spec False [[0, 0]] (1 / 2) ! 0 ! 1 = 0
   \<and> getpredictions_with_threshold_spec False [[0, 0]] (3 / 4) ! 0 ! 1 = 0
   \<and> getpredictions_with_threshold_spec True [[0, 0]] (1 / 2) = [[1, 1]]"
proof -
  have h: "(1 / 2 :: real) \<le> 3 / 4" by simp
  have s: "sigmoid 0 = 1 / 2" by (simp add: sigmoid_def)
  have n: "getpredictions_with_threshold_spec False [[0, 0]] (1 / 2) ! 0 ! 1 = 0"
    by (simp add: getpredictions_with_threshold_spec_def binarize_def s)
  have i: "getpredictions_with_threshold_spec True [[0, 0]] (1 / 2) = [[1, 1]]"
    by (simp add: getpredictions_with_threshold_spec_def binarize_def s)
  from threshold_binarization_monotone [OF h, of False "[[0, 0]]"] n
  have "getpredictions_with_threshold_spec False [[0, 0]] (3 / 4) ! 0 ! 1 = 0"
    by force
  with h n i show ?thesis by blast
qed

section \<open>main\<close>

lemma is_file_not_is_dir: "is_file fs p \<Longrightarrow> \<not> is_dir fs p"
  by (auto simp: is_file_def is_dir_def split: option.splits node.splits)

lemma call_predict_three_arguments:
  "call_predict nn ev [Loader dl, Bool b, Float x]
     = Inl (TypeError ''predict() takes 2 positional arguments'')"
  by (simp add: call_predict_def)

lemma main_directory_raises:
  assumes "makedirs os (files w) (resolve_output_folder args) = Inr fs1"
    and "from_file nn mf pu fs1 gconfig (if cuda_is_available nn then CUDA else CPU) None gconfig
           = (Inr ev, lines)"
    and "is_dir fs1 (str (Path (input_path args)))"
  shows "main nn mf pu os lib tlib gconfig args w =
           (Inl (TypeError ''predict() takes 2 positional arguments''),
            w\<lparr>files := fs1, logged := logged w @ lines\<rparr>)"
  using assms by (simp add: main_def Let_def call_predict_three_arguments)

lemma main_from_file_raises:
  assumes "makedirs os (files w) (resolve_output_folder args) = Inr fs1"
    and "from_file nn mf pu fs1 gconfig (if cuda_is_available nn then CUDA else CPU) None gconfig
           = (Inl e, lines)"
  shows "main nn mf pu os lib tlib gconfig args w =
           (Inl e, w\<lparr>files := fs1, logged := logged w @ lines\<rparr>)"
  using assms by (simp add: main_def Let_def)

lemma example_makedirs:
  "makedirs example_os example_files ''inference_outputs''
     = Inr example_files_after"
  by (simp add: example_os_def path_prefixes_def add_entry_def Path_def str_def parent_def
      example_files_def example_files_after_def)

lemma example_from_file_after_makedirs:
  "from_file example_torch example_modelfactory example_pathutils
     example_files_after example_config
     (if cuda_is_available example_torch then CUDA else CPU) None example_config =
   (Inr (init 0 (BCEWithLogitsLoss Mean) CPU None example_config (Some 7)),
    [(INFO, ''Loading the best model...'')])"
  by (simp add: from_file_def example_torch_def example_modelfactory_def example_pathutils_def
      example_files_def example_files_after_def example_config_def path_exists_def load_model_def)

lemma example_input_path:
  "str (Path (input_path (example_args ''imgs''))) = ''imgs''"
  "str (Path (input_path (example_args ''notes.txt''))) = ''notes.txt''"
  "str (Path (input_path (example_args ''./nowhere/''))) = ''nowhere''"
  "str (Path (input_path (example_args ''inference_outputs''))) = ''inference_outputs''"
  by (simp_all add: example_args_def Path_def str_def)

text \<open>
  C8. The directory holds \<open>a.jpg\<close> and \<open>b.txt\<close>; the enumeration keeps \<open>imgs/a.jpg\<close> only.
  The driver then calls \<open>predict\<close> with three arguments and ends with TypeError: nothing
  is printed, and the only change to the files is the output folder.
\<close>

theorem main_directory_jpg_and_txt:
  "listdir example_files ''imgs'' = [''a.jpg'', ''b.txt'']
   \<and> list_image_paths example_files_after ''imgs'' = [''imgs/a.jpg'']
   \<and> main example_torch example_modelfactory example_pathutils example_os example_inference_lib
        example_torch_data example_config (example_args ''imgs'') example_io
      = (Inl (TypeError ''predict() takes 2 positional arguments''),
         \<lparr>files = example_files_after, stdout = [],
          logged = [(INFO, ''Loading the best model...'')]\<rparr>)"
proof (intro conjI)
  show "listdir example_files ''imgs'' = [''a.jpg'', ''b.txt'']"
    by (simp add: listdir_def example_files_def example_files_after_def)
  show "list_image_paths example_files_after ''imgs'' = [''imgs/a.jpg'']"
    by (simp add: list_image_paths_def listdir_def example_files_def example_files_after_def endswith_def lower_def
        lower_char_def suffix_to_prefix os_path_join_def)
  have d: "makedirs example_os (files example_io) (resolve_output_folder (example_args ''imgs''))
             = Inr example_files_after"
    by (simp add: example_output_folder example_io_def example_makedirs)
  have i: "is_dir example_files_after
             (str (Path (input_path (example_args ''imgs''))))"
    by (simp add: example_input_path is_dir_def example_files_def example_files_after_def)
  show "main example_torch example_modelfactory example_pathutils example_os example_inference_lib
        example_torch_data example_config (example_args ''imgs'') example_io
      = (Inl (TypeError ''predict() takes 2 positional arguments''),
         \<lparr>files = example_files_after, stdout = [],
          logged = [(INFO, ''Loading the best model...'')]\<rparr>)"
    unfolding main_directory_raises [OF d example_from_file_after_makedirs i]
    by (simp add: example_io_def)
qed

text \<open>
  C9, as amended. The driver creates the output folder and calls \<open>from_file\<close> before it
  looks at the input path. When both succeed, an input path that is then, in the files
  as the creation of the output folder left them, a file with neither an image nor a
  video extension, or neither a file nor a directory, makes the driver print the message
  with the path (as \<open>pathlib\<close> writes it) and return; the files are as the creation of the
  output folder left them.
\<close>

theorem main_reports_bad_input:
  assumes "makedirs os (files w) (resolve_output_folder args) = Inr fs1"
    and "from_file nn mf pu fs1 gconfig (if cuda_is_available nn then CUDA else CPU) None gconfig
           = (Inr ev, lines)"
    and "(is_file fs1 (str (Path (input_path args)))
            \<and> \<not> endswith (lower (str (Path (input_path args)))) [''.png'', ''.jpg'', ''.jpeg'']
            \<and> \<not> endswith (lower (str (Path (input_path args)))) [''.mp4'', ''.avi'', ''.mov''])
         \<or> (\<not> is_dir fs1 (str (Path (input_path args)))
            \<and> \<not> is_file fs1 (str (Path (input_path args))))"
  shows "main nn mf pu os lib tlib gconfig args w =
           (Inr (),
            w\<lparr>files := fs1, logged := logged w @ lines,
               stdout := stdout w @
                 [(if is_file fs1 (str (Path (input_path args)))
                   then ''Unsupported file type for input: ''
                   else ''Invalid input path: '') @ str (Path (input_path args))]\<rparr>)"
  using assms(3)
proof
  assume a: "is_file fs1 (str (Path (input_path args)))
            \<and> \<not> endswith (lower (str (Path (input_path args)))) [''.png'', ''.jpg'', ''.jpeg'']
            \<and> \<not> endswith (lower (str (Path (input_path args)))) [''.mp4'', ''.avi'', ''.mov'']"
  then have "\<not> is_dir fs1 (str (Path (input_path args)))" by (simp add: is_file_not_is_dir)
  with a assms(1,2) show ?thesis by (simp add: main_def Let_def)
next
  assume "\<not> is_dir fs1 (str (Path (input_path args)))
            \<and> \<not> is_file fs1 (str (Path (input_path args)))"
  with assms(1,2) show ?thesis by (simp add: main_def Let_def)
qed

theorem main_reports_bad_input_witness:
  "main example_torch example_modelfactory example_pathutils example_os example_inference_lib
     example_torch_data example_config (example_args ''notes.txt'') example_io
   = (Inr (),
      \<lparr>files = example_files_after,
       stdout = [''Unsupported file type for input: notes.txt''],
       logged = [(INFO, ''Loading the best model...'')]\<rparr>)
   \<and> main example_torch example_modelfactory example_pathutils example_os example_inference_lib
     example_torch_data example_config (example_args ''./nowhere/'') example_io
   = (Inr (),
      \<lparr>files = example_files_after,
       stdout = [''Invalid input path: nowhere''],
       logged = [(INFO, ''Loading the best model...'')]\<rparr>)"
proof -
  let ?fs1 = "example_files_after"
  have d1: "makedirs example_os (files example_io)
              (resolve_output_folder (example_args ''notes.txt'')) = Inr ?fs1"
    and d2: "makedirs example_os (files example_io)
              (resolve_output_folder (example_args ''./nowhere/'')) = Inr ?fs1"
    by (simp_all add: example_output_folder example_io_def example_makedirs)
  note f = example_from_file_after_makedirs
  have i1: "is_file ?fs1 (str (Path (input_path (example_args ''notes.txt''))))"
    by (simp add: example_input_path is_file_def example_files_def example_files_after_def)
  have e1: "\<not> endswith (lower (str (Path (input_path (example_args ''notes.txt'')))))
                 [''.png'', ''.jpg'', ''.jpeg'']"
     "\<not> endswith (lower (str (Path (input_path (example_args ''notes.txt'')))))
                 [''.mp4'', ''.avi'', ''.mov'']"
    by (simp_all add: example_input_path endswith_def lower_def lower_char_def suffix_to_prefix)
  have i2: "\<not> is_dir ?fs1 (str (Path (input_path (example_args ''./nowhere/''))))"
      "\<not> is_file ?fs1 (str (Path (input_path (example_args ''./nowhere/''))))"
    by (simp_all add: example_input_path is_file_def is_dir_def example_files_def example_files_after_def)
  from i1 e1 have k1:
    "(is_file ?fs1 (str (Path (input_path (example_args ''notes.txt''))))
        \<and> \<not> endswith (lower (str (Path (input_path (example_args ''notes.txt'')))))
              [''.png'', ''.jpg'', ''.jpeg'']
        \<and> \<not> endswith (lower (str (Path (input_path (example_args ''notes.txt'')))))
              [''.mp4'', ''.avi'', ''.mov''])
     \<or> (\<not> is_dir ?fs1 (str (Path (input_path (example_args ''notes.txt''))))
        \<and> \<not> is_file ?fs1 (str (Path (input_path (example_args ''notes.txt'')))))"
    by blast
  from i2 have k2:
    "(is_file ?fs1 (str (Path (input_path (example_args ''./nowhere/''))))
        \<and> \<not> endswith (lower (str (Path (input_path (example_args ''./nowhere/'')))))
              [''.png'', ''.jpg'', ''.jpeg'']
        \<and> \<not> endswith (lower (str (Path (input_path (example_args ''./nowhere/'')))))
              [''.mp4'', ''.avi'', ''.mov''])
     \<or> (\<not> is_dir ?fs1 (str (Path (input_path (example_args ''./nowhere/''))))
        \<and> \<not> is_file ?fs1 (str (Path (input_path (example_args ''./nowhere/'')))))"
    by blast
  show ?thesis
    unfolding main_reports_bad_input [OF d1 f k1] main_reports_bad_input [OF d2 f k2]
    using i1 i2 by (simp add: example_io_def example_input_path)
qed

text \<open>
  C9 as stated fails twice. Without a checkpoint, an input path that is neither a file
  nor a directory ends in the ValueError of \<open>from_file\<close>, nothing printed. With the
  checkpoint, the input path \<open>inference_outputs\<close> is neither a file nor a directory when
  the driver starts; the output folder the driver creates is that very path, so the
  directory branch is taken and ends in TypeError, nothing printed.
\<close>

theorem main_invalid_path_raises_counterexample:
  "\<not> is_dir (files example_io_no_checkpoint) ''nowhere''
   \<and> \<not> is_file (files example_io_no_checkpoint) ''nowhere''
   \<and> main example_torch example_modelfactory example_pathutils example_os example_inference_lib
        example_torch_data example_config (example_args ''nowhere'') example_io_no_checkpoint
      = (Inl (ValueError ''Could not find a model at path: resnet.pth. Check to ensure the config/json value for model_name_to_load is correct!''),
         \<lparr>files = example_files_no_checkpoint_after, stdout = [],
          logged = [(ERROR, ''Could not find a model at path: resnet.pth'')]\<rparr>)
   \<and> \<not> is_dir (files example_io) ''inference_outputs''
   \<and> \<not> is_file (files example_io) ''inference_outputs''
   \<and> main example_torch example_modelfactory example_pathutils example_os example_inference_lib
        example_torch_data example_config (example_args ''inference_outputs'') example_io
      = (Inl (TypeError ''predict() takes 2 positional arguments''),
         \<lparr>files = example_files_after, stdout = [],
          logged = [(INFO, ''Loading the best model...'')]\<rparr>)"
proof (intro conjI)
  show "\<not> is_dir (files example_io_no_checkpoint) ''nowhere''"
    and "\<not> is_file (files example_io_no_checkpoint) ''nowhere''"
    by (simp_all add: example_io_no_checkpoint_def example_files_no_checkpoint_def example_files_no_checkpoint_after_def is_dir_def
        is_file_def)
  have f0: "from_file example_torch example_modelfactory example_pathutils
              example_files_no_checkpoint_after example_config
              (if cuda_is_available example_torch then CUDA else CPU) None example_config
            = (Inl (ValueError ''Could not find a model at path: resnet.pth. Check to ensure the config/json value for model_name_to_load is correct!''),
               [(ERROR, ''Could not find a model at path: resnet.pth'')])"
    by (simp add: from_file_def path_exists_def example_files_no_checkpoint_def example_files_no_checkpoint_after_def
        example_pathutils_def example_config_def)
  have d0: "makedirs example_os (files example_io_no_checkpoint)
              (resolve_output_folder (example_args ''nowhere''))
              = Inr example_files_no_checkpoint_after"
    by (simp add: example_output_folder example_io_no_checkpoint_def
        example_makedirs_no_checkpoint)
  show "main example_torch example_modelfactory example_pathutils example_os example_inference_lib
        example_torch_data example_config (example_args ''nowhere'') example_io_no_checkpoint
      = (Inl (ValueError ''Could not find a model at path: resnet.pth. Check to ensure the config/json value for model_name_to_load is correct!''),
         \<lparr>files = example_files_no_checkpoint_after, stdout = [],
          logged = [(ERROR, ''Could not find a model at path: resnet.pth'')]\<rparr>)"
    unfolding main_from_file_raises [OF d0 f0]
    by (simp add: example_io_no_checkpoint_def)
  show "\<not> is_dir (files example_io) ''inference_outputs''"
    and "\<not> is_file (files example_io) ''inference_outputs''"
    by (simp_all add: example_io_def example_files_def example_files_after_def is_dir_def is_file_def)
  have d: "makedirs example_os (files example_io)
             (resolve_output_folder (example_args ''inference_outputs''))
             = Inr example_files_after"
    by (simp add: example_output_folder example_io_def example_makedirs)
  have i: "is_dir example_files_after
             (str (Path (input_path (example_args ''inference_outputs''))))"
    by (simp add: example_input_path is_dir_def example_files_after_def)
  show "main example_torch example_modelfactory example_pathutils example_os example_inference_lib
        example_torch_data example_config (example_args ''inference_outputs'') example_io
      = (Inl (TypeError ''predict() takes 2 positional arguments''),
         \<lparr>files = example_files_after, stdout = [],
          logged = [(INFO, ''Loading the best model...'')]\<rparr>)"
    unfolding main_directory_raises [OF d example_from_file_after_makedirs i]
    by (simp add: example_io_def)
qed


end
